theory Spec2Isabelle
  imports Complex_Main "HOL-Library.Sublist"
begin

section \<open>Python strings\<close>

text \<open>
  A Python \<^verbatim>\<open>str\<close> is a sequence of Unicode code points; it is modelled as the list of
  its code points. The program's tables mix Latin and Cyrillic text: the Latin parts are
  written with \<open>ascii\<close>, the Cyrillic letters by their code points (U+0430 is the small
  Cyrillic a, U+0410 the capital one).
\<close>

type_synonym pystr = "nat list"

definition ascii :: "string \<Rightarrow> pystr" where
  "ascii s = map of_char s"

text \<open>\<^verbatim>\<open>w in t\<close> on strings: \<open>w\<close> occurs in \<open>t\<close> as a contiguous run.\<close>

fun str_in :: "pystr \<Rightarrow> pystr \<Rightarrow> bool" where
  "str_in w [] = (w = [])"
| "str_in w (c # cs) = (prefix w (c # cs) \<or> str_in w cs)"

text \<open>\<^verbatim>\<open>any(word in t for word in words)\<close>\<close>

definition any_in :: "pystr list \<Rightarrow> pystr \<Rightarrow> bool" where
  "any_in words t = list_ex (\<lambda>word. str_in word t) words"

text \<open>\<^verbatim>\<open>sep.join(xs)\<close>\<close>

fun join :: "pystr \<Rightarrow> pystr list \<Rightarrow> pystr" where
  "join sep [] = []"
| "join sep [x] = x"
| "join sep (x # y # ys) = x @ sep @ join sep (y # ys)"

text \<open>
  \<^verbatim>\<open>str.lower()\<close> is a builtin of the language, driven by the Unicode character database.
  The functions below take it as their first parameter \<open>lower\<close>, so every theorem holds
  for Python's own \<^verbatim>\<open>lower\<close>. The concrete examples run with \<open>py_lower\<close>, which is
  \<^verbatim>\<open>str.lower()\<close> on text made of ASCII and of the Cyrillic block U+0400..U+045F (the
  two alphabets of the program's tables): A..Z and U+0410..U+042F move up by 32,
  U+0400..U+040F by 80, everything else in that range is unchanged.
\<close>

definition lower_cp :: "nat \<Rightarrow> nat" where
  "lower_cp c =
     (if 0x41 \<le> c \<and> c \<le> 0x5A then c + 0x20
      else if 0x410 \<le> c \<and> c \<le> 0x42F then c + 0x20
      else if 0x400 \<le> c \<and> c \<le> 0x40F then c + 0x50
      else c)"

definition py_lower :: "pystr \<Rightarrow> pystr" where
  "py_lower s = map lower_cp s"

section \<open>Skill levels and the skill profile\<close>

datatype SkillLevel = NONE | BEGINNER | INTERMEDIATE | ADVANCED

record UserSkills =
  python :: SkillLevel
  math :: SkillLevel
  statistics :: SkillLevel
  ml_basics :: SkillLevel
  deep_learning :: SkillLevel
  nlp :: SkillLevel
  computer_vision :: SkillLevel
  mlops :: SkillLevel

text \<open>The dataclass defaults: every dimension \<open>NONE\<close>.\<close>

definition UserSkills_default :: UserSkills where
  "UserSkills_default =
     \<lparr>python = NONE, math = NONE, statistics = NONE, ml_basics = NONE,
      deep_learning = NONE, nlp = NONE, computer_vision = NONE, mlops = NONE\<rparr>"

text \<open>
  The keyword lists of \<^verbatim>\<open>from_background\<close>, in source order. Transliterations of the
  Cyrillic entries: piton, programmirovan; matematik, fizik, mekhmat; mashinn;
  analitik dannykh; neironn; nlp, obrabotka tekst; komp'yutern zren.
\<close>

definition python_words :: "pystr list" where
  "python_words =
     [ascii ''python'',
      [0x43F, 0x438, 0x442, 0x43E, 0x43D],
      [0x43F, 0x440, 0x43E, 0x433, 0x440, 0x430, 0x43C, 0x43C, 0x438, 0x440, 0x43E, 0x432, 0x430, 0x43D]]"

definition math_words :: "pystr list" where
  "math_words =
     [[0x43C, 0x430, 0x442, 0x435, 0x43C, 0x430, 0x442, 0x438, 0x43A],
      ascii ''math'',
      [0x444, 0x438, 0x437, 0x438, 0x43A],
      [0x43C, 0x435, 0x445, 0x43C, 0x430, 0x442]]"

definition ml_words :: "pystr list" where
  "ml_words =
     [ascii ''ml'', ascii ''machine learning'',
      [0x43C, 0x430, 0x448, 0x438, 0x43D, 0x43D]]"

definition data_science_words :: "pystr list" where
  "data_science_words =
     [ascii ''data scien'', ascii ''ds'',
      [0x430, 0x43D, 0x430, 0x43B, 0x438, 0x442, 0x438, 0x43A, 0x20, 0x434, 0x430, 0x43D, 0x43D, 0x44B, 0x445]]"

definition deep_learning_words :: "pystr list" where
  "deep_learning_words =
     [ascii ''deep learning'',
      [0x43D, 0x435, 0x439, 0x440, 0x43E, 0x43D, 0x43D],
      ascii ''pytorch'', ascii ''tensorflow'']"

definition nlp_words :: "pystr list" where
  "nlp_words =
     [ascii ''nlp'',
      [0x43D, 0x43B, 0x43F],
      [0x43E, 0x431, 0x440, 0x430, 0x431, 0x43E, 0x442, 0x43A, 0x430, 0x20, 0x442, 0x435, 0x43A, 0x441, 0x442],
      ascii ''natural language'']"

definition computer_vision_words :: "pystr list" where
  "computer_vision_words =
     [ascii ''computer vision'', ascii ''cv'',
      [0x43A, 0x43E, 0x43C, 0x43F, 0x44C, 0x44E, 0x442, 0x435, 0x440, 0x43D, 0x20, 0x437, 0x440, 0x435, 0x43D],
      ascii ''opencv'']"

definition mlops_words :: "pystr list" where
  "mlops_words =
     [ascii ''mlops'', ascii ''devops'', ascii ''docker'', ascii ''kubernetes'', ascii ''deploy'']"

text \<open>
  \<^verbatim>\<open>UserSkills.from_background\<close>: the profile starts from the defaults and the
  \<^verbatim>\<open>if\<close> statements update it one after the other, a later assignment overwriting an
  earlier one.
\<close>

definition from_background :: "(pystr \<Rightarrow> pystr) \<Rightarrow> pystr \<Rightarrow> UserSkills" where
  "from_background lower background =
     (let background_lower = lower background;
          skills = UserSkills_default;
          skills = (if any_in python_words background_lower
                    then skills\<lparr>python := INTERMEDIATE\<rparr> else skills);
          skills = (if str_in (ascii ''senior'') background_lower
                       \<or> str_in (ascii ''lead'') background_lower
                    then skills\<lparr>python := ADVANCED\<rparr> else skills);
          skills = (if any_in math_words background_lower
                    then skills\<lparr>math := ADVANCED, statistics := INTERMEDIATE\<rparr> else skills);
          skills = (if any_in ml_words background_lower
                    then skills\<lparr>ml_basics := INTERMEDIATE\<rparr> else skills);
          skills = (if any_in data_science_words background_lower
                    then skills\<lparr>ml_basics := INTERMEDIATE, statistics := INTERMEDIATE\<rparr>
                    else skills);
          skills = (if any_in deep_learning_words background_lower
                    then skills\<lparr>deep_learning := INTERMEDIATE\<rparr> else skills);
          skills = (if any_in nlp_words background_lower
                    then skills\<lparr>nlp := INTERMEDIATE\<rparr> else skills);
          skills = (if any_in computer_vision_words background_lower
                    then skills\<lparr>computer_vision := INTERMEDIATE\<rparr> else skills);
          skills = (if any_in mlops_words background_lower
                    then skills\<lparr>mlops := INTERMEDIATE\<rparr> else skills)
      in skills)"

text \<open>Every keyword the derivation looks for, the two seniority phrases included.\<close>

definition background_words :: "pystr list" where
  "background_words =
     python_words @ [ascii ''senior'', ascii ''lead''] @ math_words @ ml_words
       @ data_science_words @ deep_learning_words @ nlp_words @ computer_vision_words
       @ mlops_words"

section \<open>Courses and the catalog\<close>

record Course =
  name :: pystr
  program :: pystr
  semester :: int
  course_type :: pystr
  credits :: int
  description :: pystr
  prerequisites :: "pystr list"
  skills_gained :: "pystr list"
  difficulty :: pystr

text \<open>
  The two course kinds of the catalog: the literal U+0432 U+044B U+0431 U+043E U+0440
  U+043D U+0430 U+044F (vybornaya, elective) and the literal obyazatel'naya (required).
\<close>

definition vybornaya :: pystr where
  "vybornaya = [0x432, 0x44B, 0x431, 0x43E, 0x440, 0x43D, 0x430, 0x44F]"

definition obyazatelnaya :: pystr where
  "obyazatelnaya = [0x43E, 0x431, 0x44F, 0x437, 0x430, 0x442, 0x435, 0x43B, 0x44C, 0x43D, 0x430, 0x44F]"

text \<open>
  \<^verbatim>\<open>_get_default_courses\<close>: the built-in list, in source order. In transliteration:
  1. Mashinnoe obuchenie (AI, semester 1, obyazatelnaya): Osnovy ML: regressiya, klassifikatsiya, klasterizatsiya; prerequisites Python, Linejnaya algebra; skills sklearn, pandas, ML pipelines
  2. Glubokoe obuchenie (AI, semester 2, obyazatelnaya): Nejronnye seti, CNN, RNN, Transformers; prerequisites Mashinnoe obuchenie; skills PyTorch, Nejronnye seti
  3. Matematicheskaya statistika (AI, semester 1, obyazatelnaya): Statisticheskie metody dlya ML; prerequisites Teoriya veroyatnostej; skills Statisticheskij analiz, A/B testy
  4. MLOps (AI, semester 3, obyazatelnaya): Razvyortyvanie i monitoring ML-sistem; prerequisites Mashinnoe obuchenie, Docker; skills Docker, CI/CD, Model serving
  5. Komp'yuternoe zrenie (AI, semester 2, vybornaya): Obrabotka izobrazhenij, detektsiya, segmentatsiya; prerequisites Glubokoe obuchenie; skills OpenCV, CNN, Object Detection
  6. Obrabotka estestvennogo yazyka (AI, semester 2, vybornaya): NLP: tokenizatsiya, embeddingi, transformery; prerequisites Glubokoe obuchenie; skills Transformers, BERT, Text processing
  7. Reinforcement Learning (AI, semester 3, vybornaya): Obuchenie s podkrepleniem; prerequisites Glubokoe obuchenie, Teoriya veroyatnostej; skills RL algorithms, Gym, Policy optimization
  8. Generativnye modeli (AI, semester 3, vybornaya): VAE, GAN, Diffusion models; prerequisites Glubokoe obuchenie; skills GANs, Diffusion, Image generation
  9. Big Data (AI, semester 2, vybornaya): Spark, raspredelyonnye vychisleniya; prerequisites Python, SQL; skills Spark, Hadoop, Distributed computing
  10. Upravlenie AI-produktom (AI Product, semester 1, obyazatelnaya): Product management dlya AI-produktov; prerequisites none; skills Product thinking, Roadmap, Metrics
  11. Dizajn AI-sistem (AI Product, semester 2, obyazatelnaya): Proektirovanie arkhitektury ML-sistem; prerequisites Mashinnoe obuchenie; skills System design, ML architecture
  12. AI Ethics (AI Product, semester 2, vybornaya): Etika iskusstvennogo intellekta; prerequisites none; skills AI Ethics, Responsible AI, Bias detection
\<close>

definition get_default_courses :: "Course list" where
  "get_default_courses =
    [
     \<lparr>name = [0x41C, 0x430, 0x448, 0x438, 0x43D, 0x43D, 0x43E, 0x435, 0x20, 0x43E, 0x431, 0x443, 0x447, 0x435, 0x43D, 0x438, 0x435],
      program = ascii ''AI'', semester = 1, course_type = obyazatelnaya, credits = 4,
      description = [0x41E, 0x441, 0x43D, 0x43E, 0x432, 0x44B] @ ascii '' ML: '' @ [0x440, 0x435, 0x433, 0x440, 0x435, 0x441, 0x441, 0x438, 0x44F, 0x2C, 0x20, 0x43A, 0x43B, 0x430, 0x441, 0x441, 0x438, 0x444, 0x438, 0x43A, 0x430, 0x446, 0x438, 0x44F, 0x2C, 0x20, 0x43A, 0x43B, 0x430, 0x441, 0x442, 0x435, 0x440, 0x438, 0x437, 0x430, 0x446, 0x438, 0x44F],
      prerequisites = [ascii ''Python'', [0x41B, 0x438, 0x43D, 0x435, 0x439, 0x43D, 0x430, 0x44F, 0x20, 0x430, 0x43B, 0x433, 0x435, 0x431, 0x440, 0x430]],
      skills_gained = [ascii ''sklearn'', ascii ''pandas'', ascii ''ML pipelines''],
      difficulty = ascii ''medium''\<rparr>,
     \<lparr>name = [0x413, 0x43B, 0x443, 0x431, 0x43E, 0x43A, 0x43E, 0x435, 0x20, 0x43E, 0x431, 0x443, 0x447, 0x435, 0x43D, 0x438, 0x435],
      program = ascii ''AI'', semester = 2, course_type = obyazatelnaya, credits = 4,
      description = [0x41D, 0x435, 0x439, 0x440, 0x43E, 0x43D, 0x43D, 0x44B, 0x435, 0x20, 0x441, 0x435, 0x442, 0x438] @ ascii '', CNN, RNN, Transformers'',
      prerequisites = [[0x41C, 0x430, 0x448, 0x438, 0x43D, 0x43D, 0x43E, 0x435, 0x20, 0x43E, 0x431, 0x443, 0x447, 0x435, 0x43D, 0x438, 0x435]],
      skills_gained = [ascii ''PyTorch'', [0x41D, 0x435, 0x439, 0x440, 0x43E, 0x43D, 0x43D, 0x44B, 0x435, 0x20, 0x441, 0x435, 0x442, 0x438]],
      difficulty = ascii ''medium''\<rparr>,
     \<lparr>name = [0x41C, 0x430, 0x442, 0x435, 0x43C, 0x430, 0x442, 0x438, 0x447, 0x435, 0x441, 0x43A, 0x430, 0x44F, 0x20, 0x441, 0x442, 0x430, 0x442, 0x438, 0x441, 0x442, 0x438, 0x43A, 0x430],
      program = ascii ''AI'', semester = 1, course_type = obyazatelnaya, credits = 3,
      description = [0x421, 0x442, 0x430, 0x442, 0x438, 0x441, 0x442, 0x438, 0x447, 0x435, 0x441, 0x43A, 0x438, 0x435, 0x20, 0x43C, 0x435, 0x442, 0x43E, 0x434, 0x44B, 0x20, 0x434, 0x43B, 0x44F] @ ascii '' ML'',
      prerequisites = [[0x422, 0x435, 0x43E, 0x440, 0x438, 0x44F, 0x20, 0x432, 0x435, 0x440, 0x43E, 0x44F, 0x442, 0x43D, 0x43E, 0x441, 0x442, 0x435, 0x439]],
      skills_gained = [[0x421, 0x442, 0x430, 0x442, 0x438, 0x441, 0x442, 0x438, 0x447, 0x435, 0x441, 0x43A, 0x438, 0x439, 0x20, 0x430, 0x43D, 0x430, 0x43B, 0x438, 0x437], ascii ''A/B '' @ [0x442, 0x435, 0x441, 0x442, 0x44B]],
      difficulty = ascii ''medium''\<rparr>,
     \<lparr>name = ascii ''MLOps'',
      program = ascii ''AI'', semester = 3, course_type = obyazatelnaya, credits = 3,
      description = [0x420, 0x430, 0x437, 0x432, 0x451, 0x440, 0x442, 0x44B, 0x432, 0x430, 0x43D, 0x438, 0x435, 0x20, 0x438, 0x20, 0x43C, 0x43E, 0x43D, 0x438, 0x442, 0x43E, 0x440, 0x438, 0x43D, 0x433] @ ascii '' ML-'' @ [0x441, 0x438, 0x441, 0x442, 0x435, 0x43C],
      prerequisites = [[0x41C, 0x430, 0x448, 0x438, 0x43D, 0x43D, 0x43E, 0x435, 0x20, 0x43E, 0x431, 0x443, 0x447, 0x435, 0x43D, 0x438, 0x435], ascii ''Docker''],
      skills_gained = [ascii ''Docker'', ascii ''CI/CD'', ascii ''Model serving''],
      difficulty = ascii ''medium''\<rparr>,
     \<lparr>name = [0x41A, 0x43E, 0x43C, 0x43F, 0x44C, 0x44E, 0x442, 0x435, 0x440, 0x43D, 0x43E, 0x435, 0x20, 0x437, 0x440, 0x435, 0x43D, 0x438, 0x435],
      program = ascii ''AI'', semester = 2, course_type = vybornaya, credits = 3,
      description = [0x41E, 0x431, 0x440, 0x430, 0x431, 0x43E, 0x442, 0x43A, 0x430, 0x20, 0x438, 0x437, 0x43E, 0x431, 0x440, 0x430, 0x436, 0x435, 0x43D, 0x438, 0x439, 0x2C, 0x20, 0x434, 0x435, 0x442, 0x435, 0x43A, 0x446, 0x438, 0x44F, 0x2C, 0x20, 0x441, 0x435, 0x433, 0x43C, 0x435, 0x43D, 0x442, 0x430, 0x446, 0x438, 0x44F],
      prerequisites = [[0x413, 0x43B, 0x443, 0x431, 0x43E, 0x43A, 0x43E, 0x435, 0x20, 0x43E, 0x431, 0x443, 0x447, 0x435, 0x43D, 0x438, 0x435]],
      skills_gained = [ascii ''OpenCV'', ascii ''CNN'', ascii ''Object Detection''],
      difficulty = ascii ''high''\<rparr>,
     \<lparr>name = [0x41E, 0x431, 0x440, 0x430, 0x431, 0x43E, 0x442, 0x43A, 0x430, 0x20, 0x435, 0x441, 0x442, 0x435, 0x441, 0x442, 0x432, 0x435, 0x43D, 0x43D, 0x43E, 0x433, 0x43E, 0x20, 0x44F, 0x437, 0x44B, 0x43A, 0x430],
      program = ascii ''AI'', semester = 2, course_type = vybornaya, credits = 3,
      description = ascii ''NLP: '' @ [0x442, 0x43E, 0x43A, 0x435, 0x43D, 0x438, 0x437, 0x430, 0x446, 0x438, 0x44F, 0x2C, 0x20, 0x44D, 0x43C, 0x431, 0x435, 0x434, 0x434, 0x438, 0x43D, 0x433, 0x438, 0x2C, 0x20, 0x442, 0x440, 0x430, 0x43D, 0x441, 0x444, 0x43E, 0x440, 0x43C, 0x435, 0x440, 0x44B],
      prerequisites = [[0x413, 0x43B, 0x443, 0x431, 0x43E, 0x43A, 0x43E, 0x435, 0x20, 0x43E, 0x431, 0x443, 0x447, 0x435, 0x43D, 0x438, 0x435]],
      skills_gained = [ascii ''Transformers'', ascii ''BERT'', ascii ''Text processing''],
      difficulty = ascii ''high''\<rparr>,
     \<lparr>name = ascii ''Reinforcement Learning'',
      program = ascii ''AI'', semester = 3, course_type = vybornaya, credits = 3,
      description = [0x41E, 0x431, 0x443, 0x447, 0x435, 0x43D, 0x438, 0x435, 0x20, 0x441, 0x20, 0x43F, 0x43E, 0x434, 0x43A, 0x440, 0x435, 0x43F, 0x43B, 0x435, 0x43D, 0x438, 0x435, 0x43C],
      prerequisites = [[0x413, 0x43B, 0x443, 0x431, 0x43E, 0x43A, 0x43E, 0x435, 0x20, 0x43E, 0x431, 0x443, 0x447, 0x435, 0x43D, 0x438, 0x435], [0x422, 0x435, 0x43E, 0x440, 0x438, 0x44F, 0x20, 0x432, 0x435, 0x440, 0x43E, 0x44F, 0x442, 0x43D, 0x43E, 0x441, 0x442, 0x435, 0x439]],
      skills_gained = [ascii ''RL algorithms'', ascii ''Gym'', ascii ''Policy optimization''],
      difficulty = ascii ''high''\<rparr>,
     \<lparr>name = [0x413, 0x435, 0x43D, 0x435, 0x440, 0x430, 0x442, 0x438, 0x432, 0x43D, 0x44B, 0x435, 0x20, 0x43C, 0x43E, 0x434, 0x435, 0x43B, 0x438],
      program = ascii ''AI'', semester = 3, course_type = vybornaya, credits = 3,
      description = ascii ''VAE, GAN, Diffusion models'',
      prerequisites = [[0x413, 0x43B, 0x443, 0x431, 0x43E, 0x43A, 0x43E, 0x435, 0x20, 0x43E, 0x431, 0x443, 0x447, 0x435, 0x43D, 0x438, 0x435]],
      skills_gained = [ascii ''GANs'', ascii ''Diffusion'', ascii ''Image generation''],
      difficulty = ascii ''high''\<rparr>,
     \<lparr>name = ascii ''Big Data'',
      program = ascii ''AI'', semester = 2, course_type = vybornaya, credits = 3,
      description = ascii ''Spark, '' @ [0x440, 0x430, 0x441, 0x43F, 0x440, 0x435, 0x434, 0x435, 0x43B, 0x451, 0x43D, 0x43D, 0x44B, 0x435, 0x20, 0x432, 0x44B, 0x447, 0x438, 0x441, 0x43B, 0x435, 0x43D, 0x438, 0x44F],
      prerequisites = [ascii ''Python'', ascii ''SQL''],
      skills_gained = [ascii ''Spark'', ascii ''Hadoop'', ascii ''Distributed computing''],
      difficulty = ascii ''medium''\<rparr>,
     \<lparr>name = [0x423, 0x43F, 0x440, 0x430, 0x432, 0x43B, 0x435, 0x43D, 0x438, 0x435] @ ascii '' AI-'' @ [0x43F, 0x440, 0x43E, 0x434, 0x443, 0x43A, 0x442, 0x43E, 0x43C],
      program = ascii ''AI Product'', semester = 1, course_type = obyazatelnaya, credits = 3,
      description = ascii ''Product management '' @ [0x434, 0x43B, 0x44F] @ ascii '' AI-'' @ [0x43F, 0x440, 0x43E, 0x434, 0x443, 0x43A, 0x442, 0x43E, 0x432],
      prerequisites = [],
      skills_gained = [ascii ''Product thinking'', ascii ''Roadmap'', ascii ''Metrics''],
      difficulty = ascii ''medium''\<rparr>,
     \<lparr>name = [0x414, 0x438, 0x437, 0x430, 0x439, 0x43D] @ ascii '' AI-'' @ [0x441, 0x438, 0x441, 0x442, 0x435, 0x43C],
      program = ascii ''AI Product'', semester = 2, course_type = obyazatelnaya, credits = 3,
      description = [0x41F, 0x440, 0x43E, 0x435, 0x43A, 0x442, 0x438, 0x440, 0x43E, 0x432, 0x430, 0x43D, 0x438, 0x435, 0x20, 0x430, 0x440, 0x445, 0x438, 0x442, 0x435, 0x43A, 0x442, 0x443, 0x440, 0x44B] @ ascii '' ML-'' @ [0x441, 0x438, 0x441, 0x442, 0x435, 0x43C],
      prerequisites = [[0x41C, 0x430, 0x448, 0x438, 0x43D, 0x43D, 0x43E, 0x435, 0x20, 0x43E, 0x431, 0x443, 0x447, 0x435, 0x43D, 0x438, 0x435]],
      skills_gained = [ascii ''System design'', ascii ''ML architecture''],
      difficulty = ascii ''medium''\<rparr>,
     \<lparr>name = ascii ''AI Ethics'',
      program = ascii ''AI Product'', semester = 2, course_type = vybornaya, credits = 2,
      description = [0x42D, 0x442, 0x438, 0x43A, 0x430, 0x20, 0x438, 0x441, 0x43A, 0x443, 0x441, 0x441, 0x442, 0x432, 0x435, 0x43D, 0x43D, 0x43E, 0x433, 0x43E, 0x20, 0x438, 0x43D, 0x442, 0x435, 0x43B, 0x43B, 0x435, 0x43A, 0x442, 0x430],
      prerequisites = [],
      skills_gained = [ascii ''AI Ethics'', ascii ''Responsible AI'', ascii ''Bias detection''],
      difficulty = ascii ''medium''\<rparr>
    ]"

text \<open>
  The exceptions that the modelled functions raise and no handler catches. \<open>OSError\<close>
  stands for the errors of \<^verbatim>\<open>open\<close> other than \<^verbatim>\<open>FileNotFoundError\<close>
  (\<^verbatim>\<open>PermissionError\<close>, \<^verbatim>\<open>IsADirectoryError\<close> and the like).
\<close>

datatype py_error =
    KeyError | TypeError | AttributeError | OSError | UnicodeDecodeError | RecursionError

text \<open>
  The values that \<^verbatim>\<open>json.load\<close> returns. A float is the rational it denotes, or one of
  the three non-finite numbers that Python's parser accepts. A dictionary is the list of
  its items in insertion order, each key once.
\<close>

datatype nonfinite = PosInfinity | NegInfinity | NaN

datatype pyval =
    PNone
  | PBool bool
  | PInt int
  | PFloat rat
  | PNonFinite nonfinite
  | PStr pystr
  | PList "pyval list"
  | PDict "(pystr \<times> pyval) list"


















text \<open>
  \<^verbatim>\<open>get_elective_courses\<close>; \<open>courses\<close> is \<^verbatim>\<open>self.courses\<close>. The filter \<open>prog\<close> is
  \<^verbatim>\<open>None\<close> or a string, and \<^verbatim>\<open>if program:\<close> is false for both \<^verbatim>\<open>None\<close> and the empty
  string.
\<close>

definition get_elective_courses ::
  "(pystr \<Rightarrow> pystr) \<Rightarrow> Course list \<Rightarrow> pystr option \<Rightarrow> Course list" where
  "get_elective_courses lower courses prog =
     (let cs = filter (\<lambda>c. course_type c = vybornaya) courses in
      case prog of
        None \<Rightarrow> cs
      | Some p \<Rightarrow> if p \<noteq> [] then filter (\<lambda>c. str_in (lower p) (lower (program c))) cs else cs)"

section \<open>Floats\<close>

text \<open>
  A Python \<^verbatim>\<open>float\<close> is an IEEE 754 binary64 number. Every finite one is a rational, and
  the program divides only by non-zero numbers, so a float is modelled by the rational it
  denotes and every operation by the exact result rounded to the nearest binary64 number,
  ties to even (\<open>rnd\<close>). Overflow is not modelled: the values of the program stay far
  below \<open>2 ^ 1024\<close>.
\<close>

type_synonym pyfloat = rat

text \<open>The nearest integer, a tie going to the even neighbour.\<close>

definition round_half_even :: "rat \<Rightarrow> int" where
  "round_half_even x =
     (let f = \<lfloor>x\<rfloor>; d = x - of_int f in
      if d < 1 / 2 then f
      else if 1 / 2 < d then f + 1
      else if even f then f else f + 1)"

fun log2floor :: "nat \<Rightarrow> nat" where
  "log2floor n = (if n < 2 then 0 else Suc (log2floor (n div 2)))"

text \<open>The binary exponent of a positive rational: \<open>2 powi binade x \<le> x < 2 powi (binade x + 1)\<close>.\<close>

definition binade :: "rat \<Rightarrow> int" where
  "binade x =
     (if 1 \<le> x then int (log2floor (nat \<lfloor>x\<rfloor>))
      else - int (Suc (log2floor (nat (\<lceil>1 / x\<rceil> - 1)))))"

text \<open>
  The exponent of the last place: 52 binary digits below the binade, and never below that
  of the subnormal numbers.
\<close>

definition ulp_exp :: "rat \<Rightarrow> int" where
  "ulp_exp x = max (binade \<bar>x\<bar>) (- 1022) - 52"

definition rnd :: "rat \<Rightarrow> pyfloat" where
  "rnd x =
     (if x = 0 then 0
      else of_int (round_half_even (x / 2 powi ulp_exp x)) * 2 powi ulp_exp x)"

text \<open>
  A decimal literal denotes the nearest float (\<open>dbl (4 / 10)\<close> is the literal \<^verbatim>\<open>0.4\<close>);
  \<^verbatim>\<open>+\<close> and \<^verbatim>\<open>*\<close> on floats and \<^verbatim>\<open>/\<close> on integers (true division, correctly rounded)
  round the exact result.
\<close>

definition dbl :: "rat \<Rightarrow> pyfloat" where
  "dbl q = rnd q"

definition fadd :: "pyfloat \<Rightarrow> pyfloat \<Rightarrow> pyfloat" where
  "fadd x y = rnd (x + y)"

definition fmul :: "pyfloat \<Rightarrow> pyfloat \<Rightarrow> pyfloat" where
  "fmul x y = rnd (x * y)"

definition int_truediv :: "int \<Rightarrow> int \<Rightarrow> pyfloat" where
  "int_truediv a b = rnd (of_int a / of_int b)"

section \<open>Scoring\<close>

text \<open>\<^verbatim>\<open>SkillLevel.value\<close>, and the two lists the scoring tests it against.\<close>

fun level_value :: "SkillLevel \<Rightarrow> pystr" where
  "level_value NONE = ascii ''none''"
| "level_value BEGINNER = ascii ''beginner''"
| "level_value INTERMEDIATE = ascii ''intermediate''"
| "level_value ADVANCED = ascii ''advanced''"

definition intermediate_advanced :: "pystr list" where
  "intermediate_advanced = [ascii ''intermediate'', ascii ''advanced'']"

definition none_beginner :: "pystr list" where
  "none_beginner = [ascii ''none'', ascii ''beginner'']"

text \<open>
  The Cyrillic keywords of the scoring functions, named by their transliteration:
  mashinn, glubok, statist, veroyatn, algebr (prerequisites), nejron (growth), glubokoe,
  generativn (career value).
\<close>

definition kw_mashinn :: pystr where
  "kw_mashinn = [0x43C, 0x430, 0x448, 0x438, 0x43D, 0x43D]"

definition kw_glubok :: pystr where
  "kw_glubok = [0x433, 0x43B, 0x443, 0x431, 0x43E, 0x43A]"

definition kw_statist :: pystr where
  "kw_statist = [0x441, 0x442, 0x430, 0x442, 0x438, 0x441, 0x442]"

definition kw_veroyatn :: pystr where
  "kw_veroyatn = [0x432, 0x435, 0x440, 0x43E, 0x44F, 0x442, 0x43D]"

definition kw_algebr :: pystr where
  "kw_algebr = [0x430, 0x43B, 0x433, 0x435, 0x431, 0x440]"

definition kw_nejron :: pystr where
  "kw_nejron = [0x43D, 0x435, 0x439, 0x440, 0x43E, 0x43D]"

definition kw_glubokoe :: pystr where
  "kw_glubokoe = [0x433, 0x43B, 0x443, 0x431, 0x43E, 0x43A, 0x43E, 0x435]"

definition kw_generativn :: pystr where
  "kw_generativn = [0x433, 0x435, 0x43D, 0x435, 0x440, 0x430, 0x442, 0x438, 0x432, 0x43D]"

text \<open>
  \<^verbatim>\<open>_check_prerequisites\<close>. \<open>prereq_step\<close> is the body of the loop: the new value of
  \<^verbatim>\<open>met_prerequisites\<close> after one prerequisite. The first test joins the keyword and the
  level with \<^verbatim>\<open>and\<close>; the four \<^verbatim>\<open>elif\<close> branches test the keywords and then, inside, the
  level.
\<close>

definition prereq_step :: "(pystr \<Rightarrow> pystr) \<Rightarrow> UserSkills \<Rightarrow> int \<Rightarrow> pystr \<Rightarrow> int" where
  "prereq_step lower user_skills met_prerequisites prereq =
     (let prereq_lower = lower prereq in
      if str_in (ascii ''python'') prereq_lower
           \<and> level_value (python user_skills) \<in> set intermediate_advanced
      then met_prerequisites + 1
      else if str_in kw_mashinn prereq_lower \<or> str_in (ascii ''ml'') prereq_lower
      then (if level_value (ml_basics user_skills) \<in> set intermediate_advanced
            then met_prerequisites + 1 else met_prerequisites)
      else if str_in kw_glubok prereq_lower \<or> str_in (ascii ''deep'') prereq_lower
      then (if level_value (deep_learning user_skills) \<in> set intermediate_advanced
            then met_prerequisites + 1 else met_prerequisites)
      else if str_in kw_statist prereq_lower \<or> str_in kw_veroyatn prereq_lower
      then (if level_value (statistics user_skills) \<in> set intermediate_advanced
            then met_prerequisites + 1 else met_prerequisites)
      else if str_in kw_algebr prereq_lower \<or> str_in (ascii ''math'') prereq_lower
      then (if level_value (math user_skills) \<in> set intermediate_advanced
            then met_prerequisites + 1 else met_prerequisites)
      else met_prerequisites)"

definition check_prerequisites :: "(pystr \<Rightarrow> pystr) \<Rightarrow> Course \<Rightarrow> UserSkills \<Rightarrow> pyfloat" where
  "check_prerequisites lower course user_skills =
     (if prerequisites course = [] then dbl 1
      else
        let met_prerequisites =
              fold (\<lambda>prereq met. prereq_step lower user_skills met prereq) (prerequisites course) 0
        in if prerequisites course \<noteq> []
           then int_truediv met_prerequisites (int (length (prerequisites course)))
           else dbl 1)"

text \<open>\<^verbatim>\<open>_calculate_growth_potential\<close>\<close>

definition calculate_growth_potential ::
  "(pystr \<Rightarrow> pystr) \<Rightarrow> Course \<Rightarrow> UserSkills \<Rightarrow> pyfloat" where
  "calculate_growth_potential lower course user_skills =
     (if skills_gained course = [] then dbl (5 / 10)
      else
        let new_skills = (0::int);
            course_skills_text = lower (join (ascii '' '') (skills_gained course));
            new_skills =
              (if str_in (ascii ''nlp'') course_skills_text \<or> str_in (ascii ''text'') course_skills_text
               then (if level_value (nlp user_skills) \<in> set none_beginner
                     then new_skills + 1 else new_skills)
               else new_skills);
            new_skills =
              (if str_in (ascii ''cv'') course_skills_text \<or> str_in (ascii ''vision'') course_skills_text
                    \<or> str_in (ascii ''image'') course_skills_text
               then (if level_value (computer_vision user_skills) \<in> set none_beginner
                     then new_skills + 1 else new_skills)
               else new_skills);
            new_skills =
              (if str_in (ascii ''pytorch'') course_skills_text \<or> str_in kw_nejron course_skills_text
               then (if level_value (deep_learning user_skills) \<in> set none_beginner
                     then new_skills + 1 else new_skills)
               else new_skills);
            new_skills =
              (if str_in (ascii ''docker'') course_skills_text \<or> str_in (ascii ''deploy'') course_skills_text
               then (if level_value (mlops user_skills) \<in> set none_beginner
                     then new_skills + 1 else new_skills)
               else new_skills)
        in min (int_truediv new_skills 2) (dbl 1))"

text \<open>\<^verbatim>\<open>_calculate_career_value\<close>\<close>

definition high_value_keywords :: "pystr list" where
  "high_value_keywords =
     [ascii ''deep learning'', kw_glubokoe, ascii ''nlp'', ascii ''computer vision'',
      ascii ''mlops'', ascii ''transformer'', ascii ''llm'', kw_generativn]"

definition calculate_career_value :: "(pystr \<Rightarrow> pystr) \<Rightarrow> Course \<Rightarrow> pyfloat" where
  "calculate_career_value lower course =
     (let course_text = lower (name course @ ascii '' '' @ description course);
          matches = int (length (filter (\<lambda>kw. str_in kw course_text) high_value_keywords))
      in min (int_truediv matches 3) (dbl 1))"

text \<open>
  The clauses of the reasoning string, in transliteration: "Sootvetstvuet interesam: "
  (matches the interests), "Khoroshaya baza dlya etogo kursa" (a good foundation),
  "Mozhet potrebovat'sya dopolnitel'naya podgotovka" (may need extra preparation),
  "Pomozhet osvoit' novye vostrebovannye navyki" (new in-demand skills), "Vysokaya
  vostrebovannost' na rynke" (high market demand), "Obshchij vybornyj kurs" (a general
  elective).
\<close>

definition clause_interests :: pystr where
  "clause_interests =
     [0x421, 0x43E, 0x43E, 0x442, 0x432, 0x435, 0x442, 0x441, 0x442, 0x432, 0x443, 0x435, 0x442, 0x20, 0x438, 0x43D, 0x442, 0x435, 0x440, 0x435, 0x441, 0x430, 0x43C, 0x3A, 0x20]"

definition clause_good_base :: pystr where
  "clause_good_base =
     [0x425, 0x43E, 0x440, 0x43E, 0x448, 0x430, 0x44F, 0x20, 0x431, 0x430, 0x437, 0x430, 0x20, 0x434, 0x43B, 0x44F, 0x20, 0x44D, 0x442, 0x43E, 0x433, 0x43E, 0x20, 0x43A, 0x443, 0x440, 0x441, 0x430]"

definition clause_preparation :: pystr where
  "clause_preparation =
     [0x41C, 0x43E, 0x436, 0x435, 0x442, 0x20, 0x43F, 0x43E, 0x442, 0x440, 0x435, 0x431, 0x43E, 0x432, 0x430, 0x442, 0x44C, 0x441, 0x44F, 0x20, 0x434, 0x43E, 0x43F, 0x43E, 0x43B, 0x43D, 0x438, 0x442, 0x435, 0x43B, 0x44C, 0x43D, 0x430, 0x44F, 0x20, 0x43F, 0x43E, 0x434, 0x433, 0x43E, 0x442, 0x43E, 0x432, 0x43A, 0x430]"

definition clause_new_skills :: pystr where
  "clause_new_skills =
     [0x41F, 0x43E, 0x43C, 0x43E, 0x436, 0x435, 0x442, 0x20, 0x43E, 0x441, 0x432, 0x43E, 0x438, 0x442, 0x44C, 0x20, 0x43D, 0x43E, 0x432, 0x44B, 0x435, 0x20, 0x432, 0x43E, 0x441, 0x442, 0x440, 0x435, 0x431, 0x43E, 0x432, 0x430, 0x43D, 0x43D, 0x44B, 0x435, 0x20, 0x43D, 0x430, 0x432, 0x44B, 0x43A, 0x438]"

definition clause_high_demand :: pystr where
  "clause_high_demand =
     [0x412, 0x44B, 0x441, 0x43E, 0x43A, 0x430, 0x44F, 0x20, 0x432, 0x43E, 0x441, 0x442, 0x440, 0x435, 0x431, 0x43E, 0x432, 0x430, 0x43D, 0x43D, 0x43E, 0x441, 0x442, 0x44C, 0x20, 0x43D, 0x430, 0x20, 0x440, 0x44B, 0x43D, 0x43A, 0x435]"

definition clause_general :: pystr where
  "clause_general =
     [0x41E, 0x431, 0x449, 0x438, 0x439, 0x20, 0x432, 0x44B, 0x431, 0x43E, 0x440, 0x43D, 0x44B, 0x439, 0x20, 0x43A, 0x443, 0x440, 0x441]"

text \<open>
  \<^verbatim>\<open>_score_course\<close>. \<open>interest_step\<close> is the body of the loop over the interests, on the
  pair of \<^verbatim>\<open>interest_score\<close> and \<^verbatim>\<open>interest_matches\<close>; \<open>interest_loop\<close> is the loop.
\<close>

definition interest_step ::
  "(pystr \<Rightarrow> pystr) \<Rightarrow> pystr \<Rightarrow> pystr \<Rightarrow> pyfloat \<times> pystr list \<Rightarrow> pystr \<Rightarrow> pyfloat \<times> pystr list" where
  "interest_step lower course_name_lower course_desc_lower st interest =
     (let interest_score = fst st;
          interest_matches = snd st;
          interest_lower = lower interest
      in if str_in interest_lower course_name_lower \<or> str_in interest_lower course_desc_lower
         then (fadd interest_score (dbl (4 / 10)), interest_matches @ [interest])
         else (interest_score, interest_matches))"

definition interest_loop :: "(pystr \<Rightarrow> pystr) \<Rightarrow> Course \<Rightarrow> pystr list \<Rightarrow> pyfloat \<times> pystr list" where
  "interest_loop lower course interests =
     (let course_name_lower = lower (name course);
          course_desc_lower = lower (description course)
      in fold (\<lambda>interest st. interest_step lower course_name_lower course_desc_lower st interest)
           interests (dbl 0, []))"

definition score_course ::
  "(pystr \<Rightarrow> pystr) \<Rightarrow> Course \<Rightarrow> UserSkills \<Rightarrow> pystr list \<Rightarrow> pyfloat \<times> pystr" where
  "score_course lower course user_skills interests =
     (let score = dbl 0;
          reasons = [];
          interest_score = fst (interest_loop lower course interests);
          interest_matches = snd (interest_loop lower course interests);
          reasons = (if interest_matches \<noteq> []
                     then reasons @ [clause_interests @ join (ascii '', '') interest_matches]
                     else reasons);
          score = fadd score (min interest_score (dbl (4 / 10)));
          readiness_score = check_prerequisites lower course user_skills;
          score = fadd score (fmul readiness_score (dbl (3 / 10)));
          reasons = (if dbl (7 / 10) < readiness_score then reasons @ [clause_good_base]
                     else if readiness_score < dbl (3 / 10) then reasons @ [clause_preparation]
                     else reasons);
          growth_score = calculate_growth_potential lower course user_skills;
          score = fadd score (fmul growth_score (dbl (2 / 10)));
          reasons = (if dbl (7 / 10) < growth_score then reasons @ [clause_new_skills]
                     else reasons);
          career_score = calculate_career_value lower course;
          score = fadd score (fmul career_score (dbl (1 / 10)));
          reasons = (if dbl (7 / 10) < career_score then reasons @ [clause_high_demand]
                     else reasons);
          reasoning = (if reasons \<noteq> [] then join (ascii ''; '') reasons else clause_general)
      in (score, reasoning))"

section \<open>Recommendations and the study plan\<close>

record CourseRecommendation =
  course :: Course
  score :: pyfloat
  reasoning :: pystr
  priority :: int

text \<open>
  \<^verbatim>\<open>get_study_plan\<close>. The dictionary is a map from term numbers to course lists; it starts
  with the keys \<^verbatim>\<open>range(1, semesters + 1)\<close>, each with the empty list.
  \<^verbatim>\<open>plan[semester].append(...)\<close> raises \<^verbatim>\<open>KeyError\<close> when \<^verbatim>\<open>semester\<close> is not a key,
  which happens for a term number below 1: the guard only tests \<^verbatim>\<open>semester <= semesters\<close>.
\<close>

fun plan_loop ::
  "CourseRecommendation list \<Rightarrow> int \<Rightarrow> (int \<rightharpoonup> Course list) \<Rightarrow> py_error + (int \<rightharpoonup> Course list)" where
  "plan_loop [] semesters plan = Inr plan"
| "plan_loop (r # recs) semesters plan =
     (let sem = semester (course r) in
      if sem \<le> semesters then
        (case plan sem of
           None \<Rightarrow> Inl KeyError
         | Some cs \<Rightarrow> plan_loop recs semesters (plan(sem \<mapsto> cs @ [course r])))
      else plan_loop recs semesters plan)"

definition get_study_plan ::
  "CourseRecommendation list \<Rightarrow> int \<Rightarrow> py_error + (int \<rightharpoonup> Course list)" where
  "get_study_plan recommendations semesters =
     plan_loop recommendations semesters
       (\<lambda>i. if 1 \<le> i \<and> i \<le> semesters then Some [] else None)"

text \<open>An input for the plan builder: seed courses 5, 7 and 12, of terms 2, 3 and 2.\<close>

definition plan_example :: "CourseRecommendation list" where
  "plan_example =
     map (\<lambda>c. \<lparr>course = c, score = 0, reasoning = [], priority = 0\<rparr>)
       [get_default_courses ! 4, get_default_courses ! 6, get_default_courses ! 11]"

text \<open>A recommendation of a course with term number 0: seed course 5 with its term replaced.\<close>

definition term_zero_recommendation :: CourseRecommendation where
  "term_zero_recommendation =
     \<lparr>course = (get_default_courses ! 4)\<lparr>semester := 0\<rparr>, score = 0, reasoning = [],
      priority = 1\<rparr>"

section \<open>Ranking\<close>

text \<open>\<^verbatim>\<open>xs[:n]\<close>: a negative \<^verbatim>\<open>n\<close> counts from the end.\<close>

definition slice_to :: "'a list \<Rightarrow> int \<Rightarrow> 'a list" where
  "slice_to xs n = (if 0 \<le> n then take (nat n) xs else take (length xs - nat (- n)) xs)"

text \<open>
  \<^verbatim>\<open>recommend_courses\<close>; \<open>courses\<close> is \<^verbatim>\<open>self.courses\<close>. The sort is
  \<^verbatim>\<open>sort(key=score, reverse=True)\<close>: descending by score, equal scores staying in their
  order, which is the stable ascending sort \<open>sort_key\<close> on the negated score. The loop
  over \<^verbatim>\<open>enumerate(recommendations[:max_recommendations])\<close> sets the priorities of the
  objects that the returned slice holds.
\<close>

definition recommend_courses ::
  "(pystr \<Rightarrow> pystr) \<Rightarrow> Course list \<Rightarrow> pystr \<Rightarrow> pystr list \<Rightarrow> pystr option \<Rightarrow> int
     \<Rightarrow> CourseRecommendation list" where
  "recommend_courses lower courses user_background interests prog max_recommendations =
     (let user_skills = from_background lower user_background;
          electives = get_elective_courses lower courses prog
      in if electives = [] then []
         else
           let recommendations =
                 map (\<lambda>c. \<lparr>course = c,
                            score = fst (score_course lower c user_skills interests),
                            reasoning = snd (score_course lower c user_skills interests),
                            priority = 0\<rparr>) electives;
               recommendations = sort_key (\<lambda>x. - score x) recommendations
           in map (\<lambda>(i, r). r\<lparr>priority := int i + 1\<rparr>)
                (enumerate 0 (slice_to recommendations max_recommendations)))"

section \<open>The rules of the sub-scores, as tables\<close>

text \<open>The two level tests of the scoring, on the levels themselves.\<close>

definition at_least_intermediate :: "SkillLevel \<Rightarrow> bool" where
  "at_least_intermediate l = (l = INTERMEDIATE \<or> l = ADVANCED)"

definition below_intermediate :: "SkillLevel \<Rightarrow> bool" where
  "below_intermediate l = (l = NONE \<or> l = BEGINNER)"

text \<open>
  The four growth areas (NLP, computer vision, deep learning, deployment), each with its
  keywords and its profile dimension, and the number of areas whose keywords occur in
  the lower-cased, space-joined skill labels of a course and whose dimension is \<open>NONE\<close> or
  \<open>BEGINNER\<close>.
\<close>

definition growth_areas :: "(pystr list \<times> (UserSkills \<Rightarrow> SkillLevel)) list" where
  "growth_areas =
     [([ascii ''nlp'', ascii ''text''], nlp),
      ([ascii ''cv'', ascii ''vision'', ascii ''image''], computer_vision),
      ([ascii ''pytorch'', kw_nejron], deep_learning),
      ([ascii ''docker'', ascii ''deploy''], mlops)]"

definition new_growth_areas :: "(pystr \<Rightarrow> pystr) \<Rightarrow> Course \<Rightarrow> UserSkills \<Rightarrow> int" where
  "new_growth_areas lower c s =
     (let t = lower (join (ascii '' '') (skills_gained c)) in
      int (length (filter (\<lambda>(kws, level_of). any_in kws t \<and> below_intermediate (level_of s)) growth_areas)))"

text \<open>
  The five keyword groups of the prerequisites in their fixed order (python, ML basics,
  deep learning, statistics and probability, mathematics), each with its dimension.
\<close>

definition prereq_groups :: "(pystr list \<times> (UserSkills \<Rightarrow> SkillLevel)) list" where
  "prereq_groups =
     [([ascii ''python''], python),
      ([kw_mashinn, ascii ''ml''], ml_basics),
      ([kw_glubok, ascii ''deep''], deep_learning),
      ([kw_statist, kw_veroyatn], statistics),
      ([kw_algebr, ascii ''math''], math)]"

text \<open>
  The first group of a list that a text matches, and whether a prerequisite is credited
  when it is judged by that group alone.
\<close>

definition first_group ::
  "(pystr list \<times> (UserSkills \<Rightarrow> SkillLevel)) list \<Rightarrow> pystr
     \<Rightarrow> (pystr list \<times> (UserSkills \<Rightarrow> SkillLevel)) option" where
  "first_group groups t = find (\<lambda>(kws, level_of). any_in kws t) groups"

definition first_group_credit ::
  "(pystr list \<times> (UserSkills \<Rightarrow> SkillLevel)) list \<Rightarrow> (pystr \<Rightarrow> pystr) \<Rightarrow> UserSkills \<Rightarrow> pystr
     \<Rightarrow> bool" where
  "first_group_credit groups lower s p =
     (case first_group groups (lower p) of
        None \<Rightarrow> False
      | Some (kws, level_of) \<Rightarrow> at_least_intermediate (level_of s))"

text \<open>
  The rule of the readiness as the specification words it: a prerequisite is satisfied
  if its text matches one of the five groups and that group's dimension is at least
  \<open>INTERMEDIATE\<close>; the readiness is the fraction of satisfied prerequisites.
\<close>

definition claimed_satisfied :: "(pystr \<Rightarrow> pystr) \<Rightarrow> UserSkills \<Rightarrow> pystr \<Rightarrow> bool" where
  "claimed_satisfied lower s p =
     list_ex (\<lambda>(kws, level_of). any_in kws (lower p) \<and> at_least_intermediate (level_of s)) prereq_groups"

definition claimed_readiness :: "(pystr \<Rightarrow> pystr) \<Rightarrow> Course \<Rightarrow> UserSkills \<Rightarrow> pyfloat" where
  "claimed_readiness lower c s =
     (if prerequisites c = [] then 1
      else int_truediv (int (length (filter (claimed_satisfied lower s) (prerequisites c))))
             (int (length (prerequisites c))))"

text \<open>
  The rule the code follows: a prerequisite is satisfied when its text contains
  "python" and the python dimension is at least \<open>INTERMEDIATE\<close>, or when the first of the
  four other groups that its text matches has its dimension at least \<open>INTERMEDIATE\<close>.
\<close>

definition prereq_satisfied :: "(pystr \<Rightarrow> pystr) \<Rightarrow> UserSkills \<Rightarrow> pystr \<Rightarrow> bool" where
  "prereq_satisfied lower s p =
     ((str_in (ascii ''python'') (lower p) \<and> at_least_intermediate (python s))
      \<or> first_group_credit (tl prereq_groups) lower s p)"

text \<open>Inputs for the examples: a profile and two prerequisite labels.\<close>

definition pytorch_profile :: UserSkills where
  "pytorch_profile = from_background py_lower (ascii ''PyTorch'')"

definition ml_profile :: UserSkills where
  "ml_profile = from_background py_lower (ascii ''ML'')"

definition deep_ml_course :: Course where
  "deep_ml_course =
     \<lparr>name = ascii ''Advanced topics'', program = ascii ''AI'', semester = 2,
      course_type = vybornaya, credits = 3, description = [],
      prerequisites = [ascii ''Deep Learning (ML)''], skills_gained = [],
      difficulty = ascii ''medium''\<rparr>"

section \<open>Strings: basic facts\<close>

lemma str_in_sublist: "str_in w t = sublist w t"
  by (induction t) (simp_all add: sublist_Cons_right)

lemma str_in_Nil_left: "str_in [] t"
  by (simp add: str_in_sublist)

section \<open>The skill profile derivation\<close>

lemma from_background_fields:
  "from_background lower background =
     (let t = lower background in
      \<lparr>python = (if str_in (ascii ''senior'') t \<or> str_in (ascii ''lead'') t then ADVANCED
                 else if any_in python_words t then INTERMEDIATE else NONE),
       math = (if any_in math_words t then ADVANCED else NONE),
       statistics = (if any_in math_words t \<or> any_in data_science_words t
                     then INTERMEDIATE else NONE),
       ml_basics = (if any_in ml_words t \<or> any_in data_science_words t
                    then INTERMEDIATE else NONE),
       deep_learning = (if any_in deep_learning_words t then INTERMEDIATE else NONE),
       nlp = (if any_in nlp_words t then INTERMEDIATE else NONE),
       computer_vision = (if any_in computer_vision_words t then INTERMEDIATE else NONE),
       mlops = (if any_in mlops_words t then INTERMEDIATE else NONE)\<rparr>)"
  by (simp add: from_background_def UserSkills_default_def Let_def)

lemma any_in_subset:
  "set ws \<subseteq> set vs \<Longrightarrow> \<forall>w \<in> set vs. \<not> str_in w t \<Longrightarrow> \<not> any_in ws t"
  by (auto simp: any_in_def list_ex_iff)

lemma from_background_no_hit:
  assumes "\<forall>w \<in> set background_words. \<not> str_in w (lower background)"
  shows "from_background lower background = UserSkills_default"
proof -
  let ?t = "lower background"
  have a: "\<not> any_in python_words ?t" "\<not> any_in math_words ?t" "\<not> any_in ml_words ?t"
    "\<not> any_in data_science_words ?t" "\<not> any_in deep_learning_words ?t"
    "\<not> any_in nlp_words ?t" "\<not> any_in computer_vision_words ?t" "\<not> any_in mlops_words ?t"
    by (rule any_in_subset [OF _ assms], force simp: background_words_def)+
  have b: "\<not> str_in (ascii ''senior'') ?t" "\<not> str_in (ascii ''lead'') ?t"
    using assms by (simp_all add: background_words_def)
  show ?thesis
    by (simp add: from_background_fields Let_def a b UserSkills_default_def)
qed

lemma background_words_nonempty: "[] \<notin> set background_words"
  by (simp add: background_words_def python_words_def math_words_def ml_words_def
      data_science_words_def deep_learning_words_def nlp_words_def
      computer_vision_words_def mlops_words_def ascii_def)

lemma py_lower_Nil: "py_lower [] = []"
  by (simp add: py_lower_def)

lemmas words_defs = python_words_def math_words_def ml_words_def
      data_science_words_def deep_learning_words_def nlp_words_def
      computer_vision_words_def mlops_words_def

text \<open>
  Claim C6. For every background string \<open>background\<close>, with \<open>t\<close> its lower-cased text:
  \<open>python\<close> is \<open>ADVANCED\<close> when \<open>t\<close> contains "senior" or "lead", otherwise
  \<open>INTERMEDIATE\<close> exactly when it contains a python keyword; a quantitative-training
  keyword sets \<open>math\<close> to \<open>ADVANCED\<close> and \<open>statistics\<close> to \<open>INTERMEDIATE\<close>; every other
  dimension is \<open>INTERMEDIATE\<close> exactly when one of its keywords occurs and \<open>NONE\<close>
  otherwise. A background in which no keyword occurs, and the empty background, give the
  all-\<open>NONE\<close> profile.
\<close>

theorem from_background_profile:
  "from_background lower background =
     (let t = lower background in
      \<lparr>python = (if str_in (ascii ''senior'') t \<or> str_in (ascii ''lead'') t then ADVANCED
                 else if any_in python_words t then INTERMEDIATE else NONE),
       math = (if any_in math_words t then ADVANCED else NONE),
       statistics = (if any_in math_words t \<or> any_in data_science_words t
                     then INTERMEDIATE else NONE),
       ml_basics = (if any_in ml_words t \<or> any_in data_science_words t
                    then INTERMEDIATE else NONE),
       deep_learning = (if any_in deep_learning_words t then INTERMEDIATE else NONE),
       nlp = (if any_in nlp_words t then INTERMEDIATE else NONE),
       computer_vision = (if any_in computer_vision_words t then INTERMEDIATE else NONE),
       mlops = (if any_in mlops_words t then INTERMEDIATE else NONE)\<rparr>)
   \<and> ((\<forall>w \<in> set background_words. \<not> str_in w (lower background))
        \<longrightarrow> from_background lower background = UserSkills_default)
   \<and> (lower [] = [] \<longrightarrow> from_background lower [] = UserSkills_default)"
proof (intro conjI impI)
  show "from_background lower background = (let t = lower background in
      \<lparr>python = (if str_in (ascii ''senior'') t \<or> str_in (ascii ''lead'') t then ADVANCED
                 else if any_in python_words t then INTERMEDIATE else NONE),
       math = (if any_in math_words t then ADVANCED else NONE),
       statistics = (if any_in math_words t \<or> any_in data_science_words t
                     then INTERMEDIATE else NONE),
       ml_basics = (if any_in ml_words t \<or> any_in data_science_words t
                    then INTERMEDIATE else NONE),
       deep_learning = (if any_in deep_learning_words t then INTERMEDIATE else NONE),
       nlp = (if any_in nlp_words t then INTERMEDIATE else NONE),
       computer_vision = (if any_in computer_vision_words t then INTERMEDIATE else NONE),
       mlops = (if any_in mlops_words t then INTERMEDIATE else NONE)\<rparr>)"
    by (rule from_background_fields)
next
  assume "\<forall>w \<in> set background_words. \<not> str_in w (lower background)"
  then show "from_background lower background = UserSkills_default"
    by (rule from_background_no_hit)
next
  assume e: "lower [] = []"
  have "\<forall>w \<in> set background_words. \<not> str_in w (lower [])"
    using background_words_nonempty by (auto simp: e)
  then show "from_background lower [] = UserSkills_default"
    by (rule from_background_no_hit)
qed

theorem from_background_profile_witness:
  "from_background py_lower (ascii ''Senior ML engineer'') =
     \<lparr>python = ADVANCED, math = NONE, statistics = NONE, ml_basics = INTERMEDIATE,
      deep_learning = NONE, nlp = NONE, computer_vision = NONE, mlops = NONE\<rparr>
   \<and> from_background py_lower (ascii ''Python, PyTorch; '' @ [0x41C, 0x415, 0x425, 0x41C, 0x410, 0x422]) =
     \<lparr>python = INTERMEDIATE, math = ADVANCED, statistics = INTERMEDIATE, ml_basics = NONE,
      deep_learning = INTERMEDIATE, nlp = NONE, computer_vision = NONE, mlops = NONE\<rparr>
   \<and> py_lower [] = [] \<and> from_background py_lower [] = UserSkills_default"
proof -
  have 1: "from_background py_lower (ascii ''Senior ML engineer'') =
     \<lparr>python = ADVANCED, math = NONE, statistics = NONE, ml_basics = INTERMEDIATE,
      deep_learning = NONE, nlp = NONE, computer_vision = NONE, mlops = NONE\<rparr>"
    using from_background_profile [of py_lower "ascii ''Senior ML engineer''"]
    by (simp add: Let_def words_defs any_in_def ascii_def py_lower_def lower_cp_def)
  have 2: "from_background py_lower (ascii ''Python, PyTorch; '' @ [0x41C, 0x415, 0x425, 0x41C, 0x410, 0x422]) =
     \<lparr>python = INTERMEDIATE, math = ADVANCED, statistics = INTERMEDIATE, ml_basics = NONE,
      deep_learning = INTERMEDIATE, nlp = NONE, computer_vision = NONE, mlops = NONE\<rparr>"
    using from_background_profile [of py_lower "ascii ''Python, PyTorch; '' @ [0x41C, 0x415, 0x425, 0x41C, 0x410, 0x422]"]
    by (simp add: Let_def words_defs any_in_def ascii_def py_lower_def lower_cp_def)
  have 3: "from_background py_lower [] = UserSkills_default"
    using from_background_profile [of py_lower "[]", THEN conjunct2, THEN conjunct2]
    by (simp add: py_lower_Nil)
  show ?thesis using 1 2 3 by (simp add: py_lower_Nil)
qed

section \<open>The catalog loader\<close>















section \<open>The study plan\<close>

text \<open>Invariant of the loop: the buckets built so far, extended by the rest of the input.\<close>

lemma plan_loop_buckets:
  assumes "\<forall>r \<in> set recs. 1 \<le> semester (course r)"
    and "\<forall>t. 1 \<le> t \<and> t \<le> H \<longrightarrow> plan t = Some (acc t)"
    and "\<forall>t. \<not> (1 \<le> t \<and> t \<le> H) \<longrightarrow> plan t = None"
  shows "plan_loop recs H plan =
           Inr (\<lambda>t. if 1 \<le> t \<and> t \<le> H
                    then Some (acc t @ map course (filter (\<lambda>r. semester (course r) = t) recs))
                    else None)"
  using assms
proof (induction recs arbitrary: plan acc)
  case Nil
  then show ?case by (auto intro!: ext)
next
  case (Cons r recs)
  let ?s = "semester (course r)"
  from Cons.prems(1) have s1: "1 \<le> ?s" and rest: "\<forall>r \<in> set recs. 1 \<le> semester (course r)"
    by simp_all
  show ?case
  proof (cases "?s \<le> H")
    case True
    with s1 Cons.prems(2) have ps: "plan ?s = Some (acc ?s)" by simp
    let ?plan' = "plan(?s \<mapsto> acc ?s @ [course r])"
    let ?acc' = "acc(?s := acc ?s @ [course r])"
    have a: "\<forall>t. 1 \<le> t \<and> t \<le> H \<longrightarrow> ?plan' t = Some (?acc' t)"
      using Cons.prems(2) by simp
    have b: "\<forall>t. \<not> (1 \<le> t \<and> t \<le> H) \<longrightarrow> ?plan' t = None"
      using Cons.prems(3) s1 True by auto
    have "plan_loop (r # recs) H plan = plan_loop recs H ?plan'"
      using True ps by (simp add: Let_def)
    also have "\<dots> = Inr (\<lambda>t. if 1 \<le> t \<and> t \<le> H
                    then Some (?acc' t @ map course (filter (\<lambda>r. semester (course r) = t) recs))
                    else None)"
      by (rule Cons.IH [OF rest a b])
    also have "\<dots> = Inr (\<lambda>t. if 1 \<le> t \<and> t \<le> H
                    then Some (acc t @ map course (filter (\<lambda>r. semester (course r) = t) (r # recs)))
                    else None)"
      by (auto intro!: ext)
    finally show ?thesis .
  next
    case False
    have "plan_loop (r # recs) H plan = plan_loop recs H plan"
      using False by (simp add: Let_def)
    also have "\<dots> = Inr (\<lambda>t. if 1 \<le> t \<and> t \<le> H
                    then Some (acc t @ map course (filter (\<lambda>r. semester (course r) = t) recs))
                    else None)"
      by (rule Cons.IH [OF rest Cons.prems(2) Cons.prems(3)])
    also have "\<dots> = Inr (\<lambda>t. if 1 \<le> t \<and> t \<le> H
                    then Some (acc t @ map course (filter (\<lambda>r. semester (course r) = t) (r # recs)))
                    else None)"
      using False by (auto intro!: ext)
    finally show ?thesis .
  qed
qed

lemma get_study_plan_buckets:
  assumes "\<forall>r \<in> set recs. 1 \<le> semester (course r)"
  shows "get_study_plan recs H =
           Inr (\<lambda>t. if 1 \<le> t \<and> t \<le> H
                    then Some (map course (filter (\<lambda>r. semester (course r) = t) recs))
                    else None)"
proof -
  let ?p0 = "\<lambda>i. if 1 \<le> i \<and> i \<le> H then Some ([] :: Course list) else None"
  have "plan_loop recs H ?p0 =
          Inr (\<lambda>t. if 1 \<le> t \<and> t \<le> H
                   then Some ((\<lambda>t. []) t @ map course (filter (\<lambda>r. semester (course r) = t) recs))
                   else None)"
    by (rule plan_loop_buckets [OF assms]) simp_all
  then show ?thesis
    by (simp add: get_study_plan_def cong: if_cong)
qed

text \<open>
  Claim C5, as amended. For every recommendation sequence whose courses all have a term
  number of at least 1, and every horizon \<open>H\<close>, the plan builder returns a mapping with
  exactly the keys \<open>1..H\<close>; the bucket of term \<open>t\<close> is the input's courses of term \<open>t\<close>, in
  input order. So each recommendation of a term within the horizon is in the bucket of
  its own term, as often as in the input and in the input's relative order, and one of
  a later term is in no bucket.
\<close>

theorem get_study_plan_correct:
  assumes "\<forall>r \<in> set recs. 1 \<le> semester (course r)"
  shows "\<exists>plan. get_study_plan recs H = Inr plan
           \<and> dom plan = {1..H}
           \<and> (\<forall>t \<in> {1..H}. plan t = Some (map course (filter (\<lambda>r. semester (course r) = t) recs)))
           \<and> (\<forall>r \<in> set recs. \<forall>t cs. plan t = Some cs \<and> course r \<in> set cs \<longrightarrow>
                  semester (course r) = t \<and> t \<le> H)"
proof -
  let ?plan = "\<lambda>t. if 1 \<le> t \<and> t \<le> H
                    then Some (map course (filter (\<lambda>r. semester (course r) = t) recs))
                    else None"
  have 1: "get_study_plan recs H = Inr ?plan"
    by (rule get_study_plan_buckets [OF assms])
  have 2: "dom ?plan = {1..H}"
    by (auto simp: dom_def)
  have 3: "\<forall>t \<in> {1..H}. ?plan t = Some (map course (filter (\<lambda>r. semester (course r) = t) recs))"
    by simp
  have 4: "\<forall>r \<in> set recs. \<forall>t cs. ?plan t = Some cs \<and> course r \<in> set cs \<longrightarrow>
                  semester (course r) = t \<and> t \<le> H"
    by (auto split: if_splits)
  show ?thesis using 1 2 3 4 by blast
qed

lemma semester_examples:
  "semester (get_default_courses ! 4) = 2"
  "semester (get_default_courses ! 6) = 3"
  "semester (get_default_courses ! 11) = 2"
  by (simp_all add: get_default_courses_def)

theorem get_study_plan_correct_witness:
  "\<exists>plan. get_study_plan plan_example 2 = Inr plan
     \<and> dom plan = {1..2}
     \<and> plan 1 = Some []
     \<and> plan 2 = Some [get_default_courses ! 4, get_default_courses ! 11]"
proof -
  have h: "\<forall>r \<in> set plan_example. 1 \<le> semester (course r)"
    by (simp add: plan_example_def semester_examples)
  from get_study_plan_correct [OF h, of 2]
  obtain plan where p: "get_study_plan plan_example 2 = Inr plan" "dom plan = {1..2}"
    and b: "\<forall>t \<in> {1..2}. plan t = Some (map course (filter (\<lambda>r. semester (course r) = t) plan_example))"
    by blast
  from b have "plan 1 = Some (map course (filter (\<lambda>r. semester (course r) = 1) plan_example))"
    by simp
  then have p1: "plan 1 = Some []"
    by (simp add: plan_example_def semester_examples)
  from b have "plan 2 = Some (map course (filter (\<lambda>r. semester (course r) = 2) plan_example))"
    by simp
  then have p2: "plan 2 = Some [get_default_courses ! 4, get_default_courses ! 11]"
    by (simp add: plan_example_def semester_examples)
  show ?thesis using p p1 p2 by blast
qed

text \<open>
  Claim C5 as stated, for every recommendation sequence, fails below term 1: a course of
  term 0 passes the guard \<^verbatim>\<open>semester <= semesters\<close>, the dictionary has no key 0, and the
  builder raises \<^verbatim>\<open>KeyError\<close> instead of returning a mapping.
\<close>

theorem get_study_plan_term_zero_counterexample:
  "semester (course term_zero_recommendation) = 0
   \<and> get_study_plan [term_zero_recommendation] 2 = Inl KeyError"
  by (simp add: get_study_plan_def term_zero_recommendation_def)

section \<open>Floats: rounding is monotone and fixes the representable numbers\<close>

declare log2floor.simps [simp del]

lemma log2floor_bounds: "0 < n \<Longrightarrow> 2 ^ log2floor n \<le> n \<and> n < 2 ^ Suc (log2floor n)"
proof (induction n rule: log2floor.induct)
  case (1 n)
  show ?case
  proof (cases "n < 2")
    case True
    with "1.prems" have "n = 1" by simp
    then show ?thesis by (simp add: log2floor.simps)
  next
    case False
    then have "0 < n div 2" by simp
    with "1.IH" False have ih: "2 ^ log2floor (n div 2) \<le> n div 2"
      "n div 2 < 2 ^ Suc (log2floor (n div 2))" by simp_all
    have l: "log2floor n = Suc (log2floor (n div 2))"
      using False by (subst log2floor.simps) simp
    from ih show ?thesis unfolding l by (simp; linarith)
  qed
qed

lemma round_half_even_of_int: "round_half_even (of_int n) = n"
  by (simp add: round_half_even_def)

lemma round_half_even_range:
  "of_int (round_half_even x) \<le> x + 1 / 2" "x - 1 / 2 \<le> of_int (round_half_even x)"
  "\<lfloor>x\<rfloor> \<le> round_half_even x" "round_half_even x \<le> \<lfloor>x\<rfloor> + 1"
  by (auto simp: round_half_even_def Let_def; linarith)+

lemma round_half_even_mono:
  assumes "x \<le> y"
  shows "round_half_even x \<le> round_half_even y"
proof (cases "\<lfloor>x\<rfloor> = \<lfloor>y\<rfloor>")
  case True
  then show ?thesis using assms
    by (auto simp: round_half_even_def Let_def)
next
  case False
  with assms have "\<lfloor>x\<rfloor> < \<lfloor>y\<rfloor>"
    by (simp add: floor_mono le_neq_trans)
  then have "round_half_even x \<le> \<lfloor>y\<rfloor>"
    using round_half_even_range(4) [of x] by linarith
  also have "\<dots> \<le> round_half_even y"
    by (rule round_half_even_range(3))
  finally show ?thesis .
qed

lemma round_half_even_ge: "of_int n \<le> x \<Longrightarrow> n \<le> round_half_even x"
  using round_half_even_mono [of "of_int n" x] by (simp add: round_half_even_of_int)

lemma round_half_even_le: "x \<le> of_int n \<Longrightarrow> round_half_even x \<le> n"
  using round_half_even_mono [of x "of_int n"] by (simp add: round_half_even_of_int)

lemma pow2_less_imp: "(2::rat) powi a < 2 powi b \<Longrightarrow> a < b"
  using power_int_increasing [of b a "2::rat"] by (cases "a < b") auto

lemma pow2_le_of_nat: "2 ^ k \<le> n \<Longrightarrow> (2::rat) ^ k \<le> of_nat n"
proof -
  assume "2 ^ k \<le> n"
  then have "(of_nat (2 ^ k) :: rat) \<le> of_nat n" by (simp only: of_nat_le_iff)
  then show ?thesis by simp
qed

lemma of_nat_less_pow2: "n < 2 ^ k \<Longrightarrow> (of_nat n + 1 :: rat) \<le> 2 ^ k"
proof -
  assume "n < 2 ^ k"
  then have "Suc n \<le> 2 ^ k" by simp
  then have "(of_nat (Suc n) :: rat) \<le> of_nat (2 ^ k)" by (simp only: of_nat_le_iff)
  then show ?thesis by simp
qed

lemma powi_Suc_nat: "(x::rat) powi (int l + 1) = x ^ Suc l"
proof -
  have "int l + 1 = int (Suc l)" by simp
  then show ?thesis by (simp only: power_int_of_nat)
qed

lemma binade_bounds:
  assumes "0 < x"
  shows "2 powi binade x \<le> x" "x < 2 powi (binade x + 1)"
proof -
  have "2 powi binade x \<le> x \<and> x < 2 powi (binade x + 1)"
  proof (cases "1 \<le> x")
    case True
    define n where "n = nat \<lfloor>x\<rfloor>"
    have n: "0 < n" "of_nat n \<le> x" "x < of_nat n + 1"
      using True by (simp_all add: n_def le_floor_iff) linarith+
    from log2floor_bounds [OF n(1)]
    have b: "2 ^ log2floor n \<le> n" "n < 2 ^ Suc (log2floor n)" by simp_all
    have e: "binade x = int (log2floor n)"
      using True by (simp add: binade_def n_def)
    have "(2::rat) ^ log2floor n \<le> of_nat n"
      using b(1) by (rule pow2_le_of_nat)
    then have "(2::rat) ^ log2floor n \<le> x" using n(2) by (rule order_trans)
    moreover have "(2::rat) powi binade x = 2 ^ log2floor n"
      unfolding e by (rule power_int_of_nat)
    ultimately have 1: "2 powi binade x \<le> x" by (simp only:)
    have "of_nat n + 1 \<le> (2::rat) ^ Suc (log2floor n)"
      using b(2) by (rule of_nat_less_pow2)
    then have "x < 2 ^ Suc (log2floor n)" using n(3) by linarith
    moreover have "(2::rat) powi (binade x + 1) = 2 ^ Suc (log2floor n)"
      unfolding e by (rule powi_Suc_nat)
    ultimately show ?thesis using 1 by simp
  next
    case False
    define y where "y = 1 / x"
    have y: "1 < y" using False assms by (simp add: y_def)
    define n where "n = nat (\<lceil>y\<rceil> - 1)"
    have c: "2 \<le> \<lceil>y\<rceil>" using y by linarith
    have n: "0 < n" "of_nat n < y" "y \<le> of_nat n + 1"
      using c by (simp_all add: n_def) linarith+
    from log2floor_bounds [OF n(1)]
    have b: "2 ^ log2floor n \<le> n" "n < 2 ^ Suc (log2floor n)" by simp_all
    have e: "binade x = - int (Suc (log2floor n))"
      using False by (simp add: binade_def n_def y_def)
    have "(2::rat) ^ log2floor n \<le> of_nat n"
      using b(1) by (rule pow2_le_of_nat)
    then have lo: "2 ^ log2floor n < y" using n(2) by linarith
    have "of_nat n + 1 \<le> (2::rat) ^ Suc (log2floor n)"
      using b(2) by (rule of_nat_less_pow2)
    then have hi: "y \<le> 2 ^ Suc (log2floor n)" using n(3) by linarith
    have p1: "(2::rat) powi binade x = 1 / 2 ^ Suc (log2floor n)"
      unfolding e by (simp only: power_int_minus_divide power_int_of_nat)
    have "binade x + 1 = - int (log2floor n)" by (simp add: e)
    then have p2: "(2::rat) powi (binade x + 1) = 1 / 2 ^ log2floor n"
      by (simp only: power_int_minus_divide power_int_of_nat)
    have xy: "1 / y = x" by (simp add: y_def)
    have "1 / 2 ^ Suc (log2floor n) \<le> 1 / y"
      using hi y by (intro divide_left_mono) (auto intro: mult_pos_pos)
    then have 1: "2 powi binade x \<le> x" by (simp only: p1 xy)
    have "1 / y < 1 / 2 ^ log2floor n"
      using lo y by (intro divide_strict_left_mono) (auto intro: mult_pos_pos)
    then have 2: "x < 2 powi (binade x + 1)" by (simp only: p2 xy)
    show ?thesis using 1 2 by (rule conjI)
  qed
  then show "2 powi binade x \<le> x" "x < 2 powi (binade x + 1)" by simp_all
qed

lemma binade_unique:
  assumes "0 < x" "2 powi e \<le> x" "x < 2 powi (e + 1)"
  shows "binade x = e"
proof -
  from binade_bounds [OF assms(1)] assms(2,3)
  have "(2::rat) powi binade x < 2 powi (e + 1)" "(2::rat) powi e < 2 powi (binade x + 1)"
    by linarith+
  then have "binade x < e + 1" "e < binade x + 1"
    by (auto dest: pow2_less_imp)
  then show ?thesis by simp
qed

lemma binade_mono:
  assumes "0 < x" "x \<le> y"
  shows "binade x \<le> binade y"
proof -
  have "0 < y" using assms by simp
  from binade_bounds(1) [OF assms(1)] binade_bounds(2) [OF this] assms(2)
  have "(2::rat) powi binade x < 2 powi (binade y + 1)" by linarith
  then show ?thesis by (auto dest: pow2_less_imp)
qed

lemma rnd_pos: "0 < x \<Longrightarrow> rnd x = of_int (round_half_even (x / 2 powi ulp_exp x)) * 2 powi ulp_exp x"
  by (simp add: rnd_def)

lemma pow2_pos: "0 < (2::rat) powi k"
  by simp

lemma pow2_split: "(2::rat) powi (a + b) = 2 powi a * 2 powi b"
  by (simp add: power_int_add)

lemma rnd_nonneg:
  assumes "0 \<le> x"
  shows "0 \<le> rnd x"
proof (cases "x = 0")
  case True
  then show ?thesis by (simp add: rnd_def)
next
  case False
  with assms have x: "0 < x" by simp
  have "0 \<le> x / 2 powi ulp_exp x" using x by simp
  then have "0 \<le> round_half_even (x / 2 powi ulp_exp x)"
    using round_half_even_ge [of 0] by simp
  then show ?thesis by (simp add: rnd_pos [OF x])
qed

lemma rnd_lower:
  assumes "0 < x" "- 1022 \<le> binade x"
  shows "2 powi binade x \<le> rnd x"
proof -
  have k: "ulp_exp x = binade x - 52"
    using assms by (simp add: ulp_exp_def)
  have s: "(2::rat) powi binade x = of_int (2 ^ 52) * 2 powi (binade x - 52)"
    using pow2_split [of 52 "binade x - 52"] by simp
  have "of_int (2 ^ 52) * 2 powi (binade x - 52) \<le> x"
    using binade_bounds(1) [OF assms(1)] unfolding s .
  then have "of_int (2 ^ 52) \<le> x / 2 powi (binade x - 52)"
    by (simp add: pos_le_divide_eq)
  then have "2 ^ 52 \<le> round_half_even (x / 2 powi (binade x - 52))"
    by (rule round_half_even_ge)
  then have "(of_int (2 ^ 52) :: rat) \<le> of_int (round_half_even (x / 2 powi (binade x - 52)))"
    by (simp only: of_int_le_iff)
  then have "of_int (2 ^ 52) * 2 powi (binade x - 52)
               \<le> (of_int (round_half_even (x / 2 powi (binade x - 52))) :: rat) * 2 powi (binade x - 52)"
    by (rule mult_right_mono) simp
  then show ?thesis
    unfolding rnd_pos [OF assms(1)] k s .
qed

lemma rnd_upper:
  assumes "0 < x"
  shows "rnd x \<le> 2 powi (ulp_exp x + 53)"
proof -
  let ?k = "ulp_exp x"
  have "binade x + 1 \<le> ?k + 53"
    using assms by (simp add: ulp_exp_def)
  then have "(2::rat) powi (binade x + 1) \<le> 2 powi (?k + 53)"
    by (intro power_int_increasing) simp_all
  with binade_bounds(2) [OF assms] have "x \<le> 2 powi (?k + 53)" by linarith
  also have "(2::rat) powi (?k + 53) = of_int (2 ^ 53) * 2 powi ?k"
    by (simp add: power_int_add)
  finally have "x / 2 powi ?k \<le> of_int (2 ^ 53)"
    by (simp add: pos_divide_le_eq)
  then have "round_half_even (x / 2 powi ?k) \<le> 2 ^ 53"
    by (rule round_half_even_le)
  then have "(of_int (round_half_even (x / 2 powi ?k)) :: rat) \<le> of_int (2 ^ 53)"
    by (simp only: of_int_le_iff)
  then have "of_int (round_half_even (x / 2 powi ?k)) * 2 powi ?k \<le> (of_int (2 ^ 53) :: rat) * 2 powi ?k"
    by (rule mult_right_mono) simp
  also have "(of_int (2 ^ 53) :: rat) * 2 powi ?k = (2::rat) powi (?k + 53)"
    by (simp add: power_int_add)
  finally show ?thesis
    unfolding rnd_pos [OF assms] .
qed

lemma rnd_mono:
  assumes "0 \<le> x" "x \<le> y"
  shows "rnd x \<le> rnd y"
proof (cases "x = 0")
  case True
  then show ?thesis using rnd_nonneg [of y] assms by (simp add: rnd_def)
next
  case False
  with assms have x: "0 < x" and y: "0 < y" by simp_all
  have b: "binade x \<le> binade y" using x assms(2) by (rule binade_mono)
  then have k: "ulp_exp x \<le> ulp_exp y"
    using x y by (simp add: ulp_exp_def)
  show ?thesis
  proof (cases "ulp_exp x = ulp_exp y")
    case True
    have "x / 2 powi ulp_exp y \<le> y / 2 powi ulp_exp y"
      using assms(2) by (simp add: divide_right_mono)
    then have "round_half_even (x / 2 powi ulp_exp y) \<le> round_half_even (y / 2 powi ulp_exp y)"
      by (rule round_half_even_mono)
    then have "(of_int (round_half_even (x / 2 powi ulp_exp y)) :: rat)
                 \<le> of_int (round_half_even (y / 2 powi ulp_exp y))"
      by (simp only: of_int_le_iff)
    then have "of_int (round_half_even (x / 2 powi ulp_exp y)) * 2 powi ulp_exp y
                 \<le> (of_int (round_half_even (y / 2 powi ulp_exp y)) :: rat) * 2 powi ulp_exp y"
      by (rule mult_right_mono) simp
    then show ?thesis
      unfolding rnd_pos [OF x] rnd_pos [OF y] True .
  next
    case False
    with k have lt: "ulp_exp x < ulp_exp y" by simp
    then have by1: "- 1022 < binade y" and ky: "ulp_exp y = binade y - 52"
      using x y by (auto simp: ulp_exp_def max_def split: if_splits)
    have "rnd x \<le> 2 powi (ulp_exp x + 53)" using x by (rule rnd_upper)
    also have "\<dots> \<le> 2 powi binade y"
      using lt ky by (intro power_int_increasing) simp_all
    also have "\<dots> \<le> rnd y"
      using y by1 by (intro rnd_lower) simp_all
    finally show ?thesis .
  qed
qed

lemma rnd_representable:
  assumes "0 \<le> n" "n < 2 ^ 53" "- 1074 \<le> k"
  shows "rnd (of_int n * 2 powi k) = of_int n * 2 powi k"
proof (cases "n = 0")
  case True
  then show ?thesis by (simp add: rnd_def)
next
  case False
  define x :: rat where "x = of_int n * 2 powi k"
  from False assms have n: "0 < n" by simp
  then have x: "0 < x" by (simp add: x_def)
  have "(of_int n :: rat) < of_int (2 ^ 53)"
    using assms(2) by (simp only: of_int_less_iff)
  then have "x < of_int (2 ^ 53) * 2 powi k"
    unfolding x_def by (rule mult_strict_right_mono) simp
  also have "\<dots> = 2 powi (k + 53)" by (simp add: power_int_add)
  finally have "2 powi binade x < (2::rat) powi (k + 53)"
    using binade_bounds(1) [OF x] by linarith
  then have "binade x < k + 53" by (rule pow2_less_imp)
  then have kk: "ulp_exp x \<le> k"
    using assms(3) x by (simp add: ulp_exp_def)
  define d where "d = nat (k - ulp_exp x)"
  have kd: "k = ulp_exp x + int d" using kk by (simp add: d_def)
  have "x / 2 powi ulp_exp x = of_int n * (2 powi k / 2 powi ulp_exp x)"
    by (simp add: x_def)
  also have "2 powi k / (2::rat) powi ulp_exp x = 2 powi (int d)"
    by (subst kd) (simp add: power_int_add)
  also have "of_int n * (2::rat) powi (int d) = of_int (n * 2 ^ d)"
    by simp
  finally have q: "x / 2 powi ulp_exp x = of_int (n * 2 ^ d)" .
  have "rnd x = of_int (n * 2 ^ d) * 2 powi ulp_exp x"
    unfolding rnd_pos [OF x] q round_half_even_of_int ..
  also have "\<dots> = of_int n * (2 powi (int d) * 2 powi ulp_exp x)"
    by simp
  also have "2 powi (int d) * (2::rat) powi ulp_exp x = 2 powi k"
    by (subst kd) (simp add: power_int_add)
  finally show ?thesis by (simp add: x_def)
qed

lemma rnd_eval:
  assumes "2 powi e \<le> x" "x < 2 powi (e + 1)" "- 1022 \<le> e"
  shows "rnd x = of_int (round_half_even (x / 2 powi (e - 52))) * 2 powi (e - 52)"
proof -
  have x: "0 < x" using assms(1) pow2_pos [of e] by linarith
  have "binade x = e" using x assms(1,2) by (rule binade_unique)
  then have "ulp_exp x = e - 52" using x assms(3) by (simp add: ulp_exp_def)
  then show ?thesis by (simp add: rnd_pos [OF x])
qed

lemma rnd_0: "rnd 0 = 0"
  by (simp add: rnd_def)

lemma rnd_of_int_small: "0 \<le> n \<Longrightarrow> n < 2 ^ 53 \<Longrightarrow> rnd (of_int n) = of_int n"
  using rnd_representable [of n 0] by simp

lemma rnd_1: "rnd 1 = 1"
  using rnd_of_int_small [of 1] by simp

lemma rnd_half: "rnd (1 / 2) = 1 / 2"
  using rnd_representable [of 1 "- 1"] by simp

lemma round_half_even_eqI:
  assumes "of_int n - 1 / 2 < x" "x < of_int n + 1 / 2"
  shows "round_half_even x = n"
proof -
  have "of_int (round_half_even x) < (of_int n :: rat) + 1"
    using round_half_even_range(1) [of x] assms(2) by linarith
  moreover have "(of_int n :: rat) - 1 < of_int (round_half_even x)"
    using round_half_even_range(2) [of x] assms(1) by linarith
  ultimately have "round_half_even x < n + 1" "n - 1 < round_half_even x"
    by linarith+
  then show ?thesis by simp
qed

lemma rnd_eqI:
  assumes "2 powi e \<le> x" "x < 2 powi (e + 1)" "- 1022 \<le> e"
    and "of_int n - 1 / 2 < x / 2 powi (e - 52)" "x / 2 powi (e - 52) < of_int n + 1 / 2"
  shows "rnd x = of_int n * 2 powi (e - 52)"
  unfolding rnd_eval [OF assms(1-3)] round_half_even_eqI [OF assms(4,5)] ..

lemma round_half_even_tie:
  "round_half_even (of_int n + 1 / 2) = (if even n then n else n + 1)"
proof -
  have "\<lfloor>(of_int n :: rat) + 1 / 2\<rfloor> = n" by linarith
  then show ?thesis by (simp add: round_half_even_def Let_def)
qed

lemma rnd_tieI:
  assumes "2 powi e \<le> x" "x < 2 powi (e + 1)" "- 1022 \<le> e"
    and "x / 2 powi (e - 52) = of_int n + 1 / 2" "even n"
  shows "rnd x = of_int n * 2 powi (e - 52)"
  unfolding rnd_eval [OF assms(1-3)] assms(4) round_half_even_tie using assms(5) by simp

lemma dbl_0: "dbl 0 = 0"
  by (simp add: dbl_def rnd_0)

lemma dbl_1: "dbl 1 = 1"
  by (simp add: dbl_def rnd_1)

lemma dbl_5_10: "dbl (5 / 10) = 1 / 2"
  using rnd_half by (simp add: dbl_def)

lemma dbl_4_10: "dbl (4 / 10) = 3602879701896397 / 9007199254740992"
  unfolding dbl_def using rnd_eqI [of "- 2" "4 / 10" 7205759403792794] by simp

lemma dbl_3_10: "dbl (3 / 10) = 5404319552844595 / 18014398509481984"
  unfolding dbl_def using rnd_eqI [of "- 2" "3 / 10" 5404319552844595] by simp

lemma dbl_2_10: "dbl (2 / 10) = 3602879701896397 / 18014398509481984"
  unfolding dbl_def using rnd_eqI [of "- 3" "2 / 10" 7205759403792794] by simp

lemma dbl_1_10: "dbl (1 / 10) = 3602879701896397 / 36028797018963968"
  unfolding dbl_def using rnd_eqI [of "- 4" "1 / 10" 7205759403792794] by simp

lemma dbl_7_10: "dbl (7 / 10) = 3152519739159347 / 4503599627370496"
  unfolding dbl_def using rnd_eqI [of "- 1" "7 / 10" 6305039478318694] by simp

lemma sum_1: "fadd (dbl (4 / 10)) (dbl (3 / 10)) = 3152519739159347 / 4503599627370496"
  unfolding fadd_def dbl_4_10 dbl_3_10
  using rnd_tieI [of "- 1" "3602879701896397 / 9007199254740992 + 5404319552844595 / 18014398509481984"
      6305039478318694] by simp

lemma sum_2: "fadd (3152519739159347 / 4503599627370496) (dbl (2 / 10)) = 2026619832316723 / 2251799813685248"
  unfolding fadd_def dbl_2_10
  using rnd_tieI [of "- 1" "3152519739159347 / 4503599627370496 + 3602879701896397 / 18014398509481984"
      8106479329266892] by simp

lemma sum_3: "fadd (2026619832316723 / 2251799813685248) (dbl (1 / 10)) = 9007199254740991 / 9007199254740992"
  unfolding fadd_def dbl_1_10
  using rnd_eqI [of "- 1" "2026619832316723 / 2251799813685248 + 3602879701896397 / 36028797018963968"
      9007199254740991] by simp

section \<open>The score\<close>

lemma dbl_2_5: "dbl (2 / 5) = 3602879701896397 / 9007199254740992"
  using dbl_4_10 by simp

lemma dbl_1_5: "dbl (1 / 5) = 3602879701896397 / 18014398509481984"
  using dbl_2_10 by simp

lemma dbl_1_2: "dbl (1 / 2) = 1 / 2"
  using dbl_5_10 by simp

lemmas dbl_values = dbl_0 dbl_1 dbl_1_2 dbl_2_5 dbl_3_10 dbl_1_5 dbl_1_10 dbl_7_10

lemma if_count:
  "(if A then (if B then (n::int) + 1 else n) else n) = n + (if A \<and> B then 1 else 0)"
  by simp

lemma fadd_nonneg: "0 \<le> x \<Longrightarrow> 0 \<le> y \<Longrightarrow> 0 \<le> fadd x y"
  by (simp add: fadd_def rnd_nonneg)

lemma fmul_nonneg: "0 \<le> x \<Longrightarrow> 0 \<le> y \<Longrightarrow> 0 \<le> fmul x y"
  by (simp add: fmul_def rnd_nonneg)

lemma fadd_mono:
  "0 \<le> x \<Longrightarrow> 0 \<le> y \<Longrightarrow> x \<le> x' \<Longrightarrow> y \<le> y' \<Longrightarrow> fadd x y \<le> fadd x' y'"
  unfolding fadd_def by (rule rnd_mono) simp_all

lemma int_truediv_range:
  assumes "0 \<le> a" "a \<le> b" "0 < b"
  shows "0 \<le> int_truediv a b" "int_truediv a b \<le> 1"
proof -
  have q: "0 \<le> (of_int a :: rat) / of_int b" "(of_int a :: rat) / of_int b \<le> 1"
    using assms by simp_all
  show "0 \<le> int_truediv a b"
    unfolding int_truediv_def using q(1) by (rule rnd_nonneg)
  have "rnd (of_int a / of_int b) \<le> rnd 1"
    using q by (rule rnd_mono)
  then show "int_truediv a b \<le> 1"
    by (simp add: int_truediv_def rnd_1)
qed

lemma int_truediv_nonneg: "0 \<le> a \<Longrightarrow> 0 < b \<Longrightarrow> 0 \<le> int_truediv a b"
  unfolding int_truediv_def by (rule rnd_nonneg) simp

lemma prereq_step_range:
  "met \<le> prereq_step lower s met p" "prereq_step lower s met p \<le> met + 1"
  by (simp_all add: prereq_step_def Let_def)

lemma prereq_fold_range:
  "met \<le> fold (\<lambda>prereq met. prereq_step lower s met prereq) ps met
   \<and> fold (\<lambda>prereq met. prereq_step lower s met prereq) ps met \<le> met + int (length ps)"
proof (induction ps arbitrary: met)
  case Nil
  then show ?case by simp
next
  case (Cons p ps)
  from Cons.IH [of "prereq_step lower s met p"]
    prereq_step_range [where met = met and lower = lower and s = s and p = p]
  show ?case by simp
qed

lemma check_prerequisites_range:
  "0 \<le> check_prerequisites lower c s" "check_prerequisites lower c s \<le> 1"
proof -
  let ?m = "fold (\<lambda>prereq met. prereq_step lower s met prereq) (prerequisites c) 0"
  have m: "0 \<le> ?m" "?m \<le> int (length (prerequisites c))"
    using prereq_fold_range [of 0 lower s "prerequisites c"] by simp_all
  show "0 \<le> check_prerequisites lower c s"
    using int_truediv_range(1) [OF m]
    by (simp add: check_prerequisites_def dbl_1 Let_def)
  show "check_prerequisites lower c s \<le> 1"
    using int_truediv_range(2) [OF m]
    by (simp add: check_prerequisites_def dbl_1 Let_def)
qed

lemma calculate_growth_potential_count:
  "calculate_growth_potential lower c s =
     (if skills_gained c = [] then 1 / 2
      else
        let t = lower (join (ascii '' '') (skills_gained c)) in
        min (int_truediv
               ((if (str_in (ascii ''nlp'') t \<or> str_in (ascii ''text'') t)
                     \<and> level_value (nlp s) \<in> set none_beginner then 1 else 0)
                + (if (str_in (ascii ''cv'') t \<or> str_in (ascii ''vision'') t
                        \<or> str_in (ascii ''image'') t)
                     \<and> level_value (computer_vision s) \<in> set none_beginner then 1 else 0)
                + (if (str_in (ascii ''pytorch'') t \<or> str_in kw_nejron t)
                     \<and> level_value (deep_learning s) \<in> set none_beginner then 1 else 0)
                + (if (str_in (ascii ''docker'') t \<or> str_in (ascii ''deploy'') t)
                     \<and> level_value (mlops s) \<in> set none_beginner then 1 else 0)) 2) 1)"
  unfolding calculate_growth_potential_def Let_def if_count
  by (simp only: dbl_5_10 dbl_1 add_0)

lemma sum4_range:
  "0 \<le> (if A then 1 else 0) + (if B then 1 else 0) + (if C then 1 else 0) + (if D then (1::int) else 0)"
  by simp

lemma calculate_growth_potential_range:
  "0 \<le> calculate_growth_potential lower c s" "calculate_growth_potential lower c s \<le> 1"
proof -
  show "0 \<le> calculate_growth_potential lower c s"
    unfolding calculate_growth_potential_count Let_def
    using int_truediv_nonneg [OF sum4_range, of 2] by (simp del: of_int_add)
  show "calculate_growth_potential lower c s \<le> 1"
    unfolding calculate_growth_potential_count Let_def by simp
qed

lemma calculate_career_value_range:
  "0 \<le> calculate_career_value lower c" "calculate_career_value lower c \<le> 1"
  by (simp_all add: calculate_career_value_def Let_def dbl_values int_truediv_nonneg)

lemma interest_fold_nonneg:
  "0 \<le> fst st \<Longrightarrow>
   0 \<le> fst (fold (\<lambda>interest st. interest_step lower n d st interest) interests st)"
proof (induction interests arbitrary: st)
  case Nil
  then show ?case by simp
next
  case (Cons i interests)
  have "0 \<le> fst (interest_step lower n d st i)"
    using Cons.prems by (simp add: interest_step_def Let_def fadd_nonneg dbl_values)
  then show ?case using Cons.IH by simp
qed

lemma interest_loop_nonneg: "0 \<le> fst (interest_loop lower c interests)"
  unfolding interest_loop_def Let_def
  by (rule interest_fold_nonneg) (simp add: dbl_values)

lemma fst_score_course:
  "fst (score_course lower c s interests) =
     fadd (fadd (fadd (fadd (dbl 0) (min (fst (interest_loop lower c interests)) (dbl (4 / 10))))
                   (fmul (check_prerequisites lower c s) (dbl (3 / 10))))
             (fmul (calculate_growth_potential lower c s) (dbl (2 / 10))))
       (fmul (calculate_career_value lower c) (dbl (1 / 10)))"
  by (simp add: score_course_def Let_def)

lemma fmul_le_right:
  assumes "0 \<le> x" "x \<le> 1" "0 \<le> n" "n < 2 ^ 53" "- 1074 \<le> k"
  shows "fmul x (of_int n * 2 powi k) \<le> of_int n * 2 powi k"
proof -
  have "0 \<le> (of_int n :: rat) * 2 powi k" using assms(3) by simp
  then have "x * (of_int n * 2 powi k) \<le> 1 * (of_int n * 2 powi k)"
    using assms(2) by (intro mult_right_mono)
  then have "rnd (x * (of_int n * 2 powi k)) \<le> rnd (of_int n * 2 powi k)"
    using assms(1,3) by (intro rnd_mono) simp_all
  then show ?thesis
    by (simp add: fmul_def rnd_representable [OF assms(3-5)])
qed

lemma fmul_3_10: "0 \<le> x \<Longrightarrow> x \<le> 1 \<Longrightarrow> fmul x (dbl (3 / 10)) \<le> dbl (3 / 10)"
  using fmul_le_right [of x 5404319552844595 "- 54"] by (simp add: dbl_values)

lemma fmul_2_10: "0 \<le> x \<Longrightarrow> x \<le> 1 \<Longrightarrow> fmul x (dbl (2 / 10)) \<le> dbl (2 / 10)"
  using fmul_le_right [of x 3602879701896397 "- 54"] by (simp add: dbl_values)

lemma fmul_1_10: "0 \<le> x \<Longrightarrow> x \<le> 1 \<Longrightarrow> fmul x (dbl (1 / 10)) \<le> dbl (1 / 10)"
  using fmul_le_right [of x 3602879701896397 "- 55"] by (simp add: dbl_values)

lemma fadd_0_le_4_10:
  assumes "0 \<le> x" "x \<le> dbl (4 / 10)"
  shows "fadd (dbl 0) x \<le> dbl (4 / 10)"
proof -
  have "rnd x \<le> rnd (dbl (4 / 10))" using assms by (rule rnd_mono)
  also have "rnd (dbl (4 / 10)) = dbl (4 / 10)"
    using rnd_representable [of 3602879701896397 "- 53"] by (simp add: dbl_values)
  finally show ?thesis by (simp add: fadd_def dbl_0)
qed

text \<open>
  Claim C1. For every course, skill profile and interest list, the score that
  \<^verbatim>\<open>_score_course\<close> returns lies in the closed interval from 0 to 1. The bound holds with
  the rounding of every float operation: the largest value is the float sum
  0.4 + 0.3 + 0.2 + 0.1, which is 0.9999999999999999.
\<close>

theorem score_course_range:
  "0 \<le> fst (score_course lower c s interests) \<and> fst (score_course lower c s interests) \<le> 1"
proof -
  define i where "i = min (fst (interest_loop lower c interests)) (dbl (4 / 10))"
  define r where "r = fmul (check_prerequisites lower c s) (dbl (3 / 10))"
  define g where "g = fmul (calculate_growth_potential lower c s) (dbl (2 / 10))"
  define v where "v = fmul (calculate_career_value lower c) (dbl (1 / 10))"
  have sc: "fst (score_course lower c s interests) = fadd (fadd (fadd (fadd (dbl 0) i) r) g) v"
    by (simp add: fst_score_course i_def r_def g_def v_def)
  have d: "0 \<le> dbl (4 / 10)" "0 \<le> dbl (3 / 10)" "0 \<le> dbl (2 / 10)" "0 \<le> dbl (1 / 10)"
    by (simp_all add: dbl_values)
  have i: "0 \<le> i" "i \<le> dbl (4 / 10)"
    using interest_loop_nonneg [of lower c interests] d(1) by (simp_all add: i_def)
  have r: "0 \<le> r" "r \<le> dbl (3 / 10)"
    unfolding r_def
    by (rule fmul_nonneg [OF check_prerequisites_range(1) d(2)],
        rule fmul_3_10 [OF check_prerequisites_range])
  have g: "0 \<le> g" "g \<le> dbl (2 / 10)"
    unfolding g_def
    by (rule fmul_nonneg [OF calculate_growth_potential_range(1) d(3)],
        rule fmul_2_10 [OF calculate_growth_potential_range])
  have v: "0 \<le> v" "v \<le> dbl (1 / 10)"
    unfolding v_def
    by (rule fmul_nonneg [OF calculate_career_value_range(1) d(4)],
        rule fmul_1_10 [OF calculate_career_value_range])
  have s1: "0 \<le> fadd (dbl 0) i" "fadd (dbl 0) i \<le> dbl (4 / 10)"
    using i fadd_0_le_4_10 [OF i] by (simp_all add: fadd_nonneg dbl_0)
  have s2: "0 \<le> fadd (fadd (dbl 0) i) r"
    by (rule fadd_nonneg [OF s1(1) r(1)])
  have t2: "fadd (fadd (dbl 0) i) r \<le> 3152519739159347 / 4503599627370496"
    using fadd_mono [OF s1(1) r(1) s1(2) r(2)] unfolding sum_1 .
  have s3: "0 \<le> fadd (fadd (fadd (dbl 0) i) r) g"
    by (rule fadd_nonneg [OF s2 g(1)])
  have t3: "fadd (fadd (fadd (dbl 0) i) r) g \<le> 2026619832316723 / 2251799813685248"
    using fadd_mono [OF s2 g(1) t2 g(2)] unfolding sum_2 .
  have s4: "0 \<le> fadd (fadd (fadd (fadd (dbl 0) i) r) g) v"
    by (rule fadd_nonneg [OF s3 v(1)])
  have t4: "fadd (fadd (fadd (fadd (dbl 0) i) r) g) v \<le> 9007199254740991 / 9007199254740992"
    using fadd_mono [OF s3 v(1) t3 v(2)] unfolding sum_3 .
  have "(9007199254740991 :: rat) / 9007199254740992 \<le> 1" by simp
  with t4 have "fadd (fadd (fadd (fadd (dbl 0) i) r) g) v \<le> 1" by (rule order_trans)
  with s4 show ?thesis unfolding sc by (rule conjI)
qed

text \<open>
  The score of the seed course "AI Ethics" for the empty background and no interests: no
  interest matches, there is no prerequisite (readiness 1.0), no growth area and no
  high-demand keyword, so the score is the float 0.3.
\<close>

lemma ai_ethics_fields:
  "name (get_default_courses ! 11) = ascii ''AI Ethics''"
  "prerequisites (get_default_courses ! 11) = []"
  "skills_gained (get_default_courses ! 11)
     = [ascii ''AI Ethics'', ascii ''Responsible AI'', ascii ''Bias detection'']"
  by (simp_all add: get_default_courses_def)

lemma ai_ethics_career: "calculate_career_value py_lower (get_default_courses ! 11) = 0"
proof -
  have "filter (\<lambda>kw. str_in kw (py_lower (name (get_default_courses ! 11) @ ascii '' ''
                                   @ description (get_default_courses ! 11))))
          high_value_keywords = []"
    by (simp add: get_default_courses_def high_value_keywords_def kw_glubokoe_def
        kw_generativn_def ascii_def py_lower_def lower_cp_def)
  then show ?thesis
    by (simp add: calculate_career_value_def Let_def int_truediv_def rnd_0 dbl_values)
qed

lemma ai_ethics_growth:
  "calculate_growth_potential py_lower (get_default_courses ! 11) UserSkills_default = 0"
  by (simp add: calculate_growth_potential_count ai_ethics_fields Let_def kw_nejron_def
      ascii_def py_lower_def lower_cp_def int_truediv_def rnd_0)

lemma ai_ethics_score:
  "fst (score_course py_lower (get_default_courses ! 11) UserSkills_default []) = dbl (3 / 10)"
proof -
  have r: "rnd (dbl (3 / 10)) = dbl (3 / 10)"
    using rnd_representable [of 5404319552844595 "- 54"] by (simp add: dbl_values)
  have cp: "check_prerequisites py_lower (get_default_courses ! 11) UserSkills_default = 1"
    by (simp add: check_prerequisites_def ai_ethics_fields dbl_1)
  have il: "fst (interest_loop py_lower (get_default_courses ! 11) []) = 0"
    by (simp add: interest_loop_def dbl_0)
  have "fst (score_course py_lower (get_default_courses ! 11) UserSkills_default [])
          = fadd (fadd (fadd (fadd 0 (min 0 (dbl (4 / 10)))) (fmul 1 (dbl (3 / 10))))
                    (fmul 0 (dbl (2 / 10)))) (fmul 0 (dbl (1 / 10)))"
    by (simp only: fst_score_course ai_ethics_career ai_ethics_growth cp il dbl_0)
  also have "min 0 (dbl (4 / 10)) = 0"
    by (simp add: dbl_values)
  also have "fadd 0 0 = 0" by (simp add: fadd_def rnd_0)
  also have "fmul 1 (dbl (3 / 10)) = dbl (3 / 10)" by (simp only: fmul_def mult_1 r)
  also have "fadd 0 (dbl (3 / 10)) = dbl (3 / 10)" by (simp only: fadd_def add_0 r)
  also have "fmul 0 (dbl (2 / 10)) = 0" by (simp add: fmul_def rnd_0)
  also have "fadd (dbl (3 / 10)) 0 = dbl (3 / 10)" by (simp only: fadd_def add_0_right r)
  also have "fmul 0 (dbl (1 / 10)) = 0" by (simp add: fmul_def rnd_0)
  also have "fadd (dbl (3 / 10)) 0 = dbl (3 / 10)" by (simp only: fadd_def add_0_right r)
  finally show ?thesis .
qed

theorem score_course_range_witness:
  "fst (score_course py_lower (get_default_courses ! 11) UserSkills_default []) = dbl (3 / 10)
   \<and> 0 \<le> fst (score_course py_lower (get_default_courses ! 11) UserSkills_default [])
   \<and> fst (score_course py_lower (get_default_courses ! 11) UserSkills_default []) \<le> 1"
  using ai_ethics_score
    score_course_range [of py_lower "get_default_courses ! 11" UserSkills_default "[]"]
  by blast

section \<open>Growth potential\<close>

lemma level_value_intermediate_advanced:
  "level_value l \<in> set intermediate_advanced \<longleftrightarrow> at_least_intermediate l"
  by (cases l) (simp_all add: intermediate_advanced_def at_least_intermediate_def ascii_def)

lemma level_value_none_beginner:
  "level_value l \<in> set none_beginner \<longleftrightarrow> below_intermediate l"
  by (cases l) (simp_all add: none_beginner_def below_intermediate_def ascii_def)

lemma int_truediv_2: "0 \<le> n \<Longrightarrow> n < 2 ^ 53 \<Longrightarrow> int_truediv n 2 = of_int n / 2"
  using rnd_representable [of n "- 1"] by (simp add: int_truediv_def)

lemma new_growth_areas_sum:
  "new_growth_areas lower c s =
     (let t = lower (join (ascii '' '') (skills_gained c)) in
      (if (str_in (ascii ''nlp'') t \<or> str_in (ascii ''text'') t)
             \<and> level_value (nlp s) \<in> set none_beginner then 1 else 0)
        + (if (str_in (ascii ''cv'') t \<or> str_in (ascii ''vision'') t
                \<or> str_in (ascii ''image'') t)
             \<and> level_value (computer_vision s) \<in> set none_beginner then 1 else 0)
        + (if (str_in (ascii ''pytorch'') t \<or> str_in kw_nejron t)
             \<and> level_value (deep_learning s) \<in> set none_beginner then 1 else 0)
        + (if (str_in (ascii ''docker'') t \<or> str_in (ascii ''deploy'') t)
             \<and> level_value (mlops s) \<in> set none_beginner then 1 else 0))"
  by (simp add: new_growth_areas_def growth_areas_def Let_def any_in_def
      level_value_none_beginner)

lemma new_growth_areas_range: "0 \<le> new_growth_areas lower c s" "new_growth_areas lower c s \<le> 4"
  by (simp_all add: new_growth_areas_sum Let_def)

text \<open>
  Claim C8. For every course and profile, the growth-potential sub-score is 0.5 when the
  course has no granted-skill label; otherwise it is the number of growth areas (NLP,
  computer vision, deep learning, deployment) whose keywords occur in the granted-skill
  text and whose profile dimension is \<open>NONE\<close> or \<open>BEGINNER\<close>, capped at 2 and divided by 2.
\<close>

theorem calculate_growth_potential_areas:
  "calculate_growth_potential lower c s =
     (if skills_gained c = [] then 1 / 2
      else of_int (min (new_growth_areas lower c s) 2) / 2)"
proof (cases "skills_gained c = []")
  case True
  then show ?thesis by (simp add: calculate_growth_potential_count)
next
  case False
  let ?n = "new_growth_areas lower c s"
  have n: "0 \<le> ?n" "?n < 2 ^ 53"
    using new_growth_areas_range [of lower c s] by simp_all
  have "calculate_growth_potential lower c s = min (int_truediv ?n 2) 1"
    using False
    by (simp only: calculate_growth_potential_count new_growth_areas_sum Let_def if_False)
  also have "\<dots> = min (of_int ?n / 2) 1"
    by (simp only: int_truediv_2 [OF n])
  also have "\<dots> = of_int (min ?n 2) / 2"
    by (simp add: min_def)
  finally show ?thesis using False by simp
qed

theorem calculate_growth_potential_areas_witness:
  "new_growth_areas py_lower (get_default_courses ! 5) UserSkills_default = 1
   \<and> calculate_growth_potential py_lower (get_default_courses ! 5) UserSkills_default = 1 / 2
   \<and> new_growth_areas py_lower (get_default_courses ! 8) UserSkills_default = 0
   \<and> calculate_growth_potential py_lower (get_default_courses ! 8) UserSkills_default = 0"
proof -
  define c5 c8 where "c5 = get_default_courses ! 5" and "c8 = get_default_courses ! 8"
  have k: "skills_gained c5 = [ascii ''Transformers'', ascii ''BERT'', ascii ''Text processing'']"
    "skills_gained c8 = [ascii ''Spark'', ascii ''Hadoop'', ascii ''Distributed computing'']"
    by (simp_all add: c5_def c8_def get_default_courses_def)
  have n5: "new_growth_areas py_lower c5 UserSkills_default = 1"
    by (simp add: new_growth_areas_def growth_areas_def k Let_def any_in_def kw_nejron_def
        below_intermediate_def UserSkills_default_def ascii_def py_lower_def lower_cp_def)
  have n8: "new_growth_areas py_lower c8 UserSkills_default = 0"
    by (simp add: new_growth_areas_def growth_areas_def k Let_def any_in_def kw_nejron_def
        below_intermediate_def UserSkills_default_def ascii_def py_lower_def lower_cp_def)
  have "calculate_growth_potential py_lower c5 UserSkills_default = 1 / 2"
    using calculate_growth_potential_areas [of py_lower c5 UserSkills_default]
    by (simp add: n5 k)
  moreover have "calculate_growth_potential py_lower c8 UserSkills_default = 0"
    using calculate_growth_potential_areas [of py_lower c8 UserSkills_default]
    by (simp add: n8 k)
  ultimately show ?thesis using n5 n8 unfolding c5_def c8_def by simp
qed

section \<open>Readiness\<close>

lemma first_group_credit_tl:
  "first_group_credit (tl prereq_groups) lower s p =
     (let t = lower p in
      if str_in kw_mashinn t \<or> str_in (ascii ''ml'') t then at_least_intermediate (ml_basics s)
      else if str_in kw_glubok t \<or> str_in (ascii ''deep'') t then at_least_intermediate (deep_learning s)
      else if str_in kw_statist t \<or> str_in kw_veroyatn t then at_least_intermediate (statistics s)
      else if str_in kw_algebr t \<or> str_in (ascii ''math'') t then at_least_intermediate (math s)
      else False)"
  by (simp add: first_group_credit_def first_group_def prereq_groups_def any_in_def Let_def)

lemma first_group_credit_all:
  "first_group_credit prereq_groups lower s p =
     (if str_in (ascii ''python'') (lower p) then at_least_intermediate (python s)
      else first_group_credit (tl prereq_groups) lower s p)"
  by (simp add: first_group_credit_def first_group_def prereq_groups_def any_in_def)

lemma prereq_step_satisfied:
  "prereq_step lower s met p = met + (if prereq_satisfied lower s p then 1 else 0)"
  by (simp add: prereq_step_def prereq_satisfied_def first_group_credit_tl Let_def
      level_value_intermediate_advanced)

lemma prereq_fold_count:
  "fold (\<lambda>prereq met. prereq_step lower s met prereq) ps met =
     met + int (length (filter (prereq_satisfied lower s) ps))"
  by (induction ps arbitrary: met) (simp_all add: prereq_step_satisfied)

lemma any_in_none:
  "\<forall>g \<in> set groups. \<not> any_in (fst g) t \<Longrightarrow> first_group groups t = None"
  by (auto simp: first_group_def find_None_iff)

lemma check_prerequisites_count:
  "check_prerequisites lower c s =
     (if prerequisites c = [] then 1
      else int_truediv (int (length (filter (prereq_satisfied lower s) (prerequisites c))))
             (int (length (prerequisites c))))"
  by (simp add: check_prerequisites_def prereq_fold_count dbl_1)

text \<open>
  Claim C2, as amended. The readiness is the fraction of satisfied prerequisite labels,
  as the float nearest to the quotient, and it is 1.0 for a course with no prerequisite.
  A prerequisite is satisfied exactly when its text contains "python" and the python
  dimension is at least \<open>INTERMEDIATE\<close>, or the first of the groups ML basics, deep
  learning, statistics and probability, mathematics that its text matches has its
  dimension at least \<open>INTERMEDIATE\<close>. So a prerequisite whose first matching group of the
  five has a sufficient dimension is satisfied, and one that matches no group is not.
\<close>

theorem check_prerequisites_fraction:
  "check_prerequisites lower c s =
     (if prerequisites c = [] then 1
      else int_truediv (int (length (filter (prereq_satisfied lower s) (prerequisites c))))
             (int (length (prerequisites c))))
   \<and> (\<forall>p. first_group_credit prereq_groups lower s p \<longrightarrow> prereq_satisfied lower s p)
   \<and> (\<forall>p. (\<forall>g \<in> set prereq_groups. \<not> any_in (fst g) (lower p)) \<longrightarrow> \<not> prereq_satisfied lower s p)"
proof (intro conjI allI impI)
  show "check_prerequisites lower c s =
     (if prerequisites c = [] then 1
      else int_truediv (int (length (filter (prereq_satisfied lower s) (prerequisites c))))
             (int (length (prerequisites c))))"
    by (rule check_prerequisites_count)
next
  fix p
  assume "first_group_credit prereq_groups lower s p"
  then show "prereq_satisfied lower s p"
    by (auto simp: first_group_credit_all prereq_satisfied_def split: if_splits)
next
  fix p
  assume n: "\<forall>g \<in> set prereq_groups. \<not> any_in (fst g) (lower p)"
  then have "\<not> str_in (ascii ''python'') (lower p)"
    by (simp add: prereq_groups_def any_in_def)
  moreover have "\<forall>g \<in> set (tl prereq_groups). \<not> any_in (fst g) (lower p)"
    using n by (simp add: prereq_groups_def)
  then have "first_group (tl prereq_groups) (lower p) = None"
    by (rule any_in_none)
  ultimately show "\<not> prereq_satisfied lower s p"
    by (simp add: prereq_satisfied_def first_group_credit_def)
qed

lemma pytorch_profile_eq:
  "pytorch_profile = UserSkills_default\<lparr>deep_learning := INTERMEDIATE\<rparr>"
  by (simp add: pytorch_profile_def from_background_fields Let_def words_defs any_in_def
      ascii_def py_lower_def lower_cp_def UserSkills_default_def)

lemma ml_profile_eq:
  "ml_profile = UserSkills_default\<lparr>ml_basics := INTERMEDIATE\<rparr>"
  by (simp add: ml_profile_def from_background_fields Let_def words_defs any_in_def
      ascii_def py_lower_def lower_cp_def UserSkills_default_def)

lemma deep_ml_claimed:
  "claimed_satisfied py_lower pytorch_profile (ascii ''Deep Learning (ML)'')"
  by (simp add: claimed_satisfied_def pytorch_profile_eq UserSkills_default_def
      prereq_groups_def any_in_def at_least_intermediate_def kw_mashinn_def kw_glubok_def
      ascii_def py_lower_def lower_cp_def)

lemma deep_ml_not_satisfied:
  "\<not> prereq_satisfied py_lower pytorch_profile (ascii ''Deep Learning (ML)'')"
  by (simp add: prereq_satisfied_def first_group_credit_tl Let_def pytorch_profile_eq
      UserSkills_default_def at_least_intermediate_def kw_mashinn_def kw_glubok_def
      ascii_def py_lower_def lower_cp_def)

text \<open>
  Claim C2 as the specification states it fails: the label "Deep Learning (ML)" matches
  the deep-learning group and the profile derived from the background "PyTorch" has
  deep learning at \<open>INTERMEDIATE\<close>, so the stated rule gives readiness 1; the code
  judges the label by the ML-basics group, which it matches first, and returns 0.
\<close>

theorem check_prerequisites_claimed_counterexample:
  "check_prerequisites py_lower deep_ml_course pytorch_profile = 0
   \<and> claimed_readiness py_lower deep_ml_course pytorch_profile = 1"
proof -
  have p: "prerequisites deep_ml_course = [ascii ''Deep Learning (ML)'']"
    by (simp add: deep_ml_course_def)
  have "check_prerequisites py_lower deep_ml_course pytorch_profile = int_truediv 0 1"
    using deep_ml_not_satisfied by (simp add: check_prerequisites_count p)
  moreover have "claimed_readiness py_lower deep_ml_course pytorch_profile = int_truediv 1 1"
    using deep_ml_claimed by (simp add: claimed_readiness_def p)
  ultimately show ?thesis
    by (simp add: int_truediv_def rnd_0 rnd_1)
qed

theorem check_prerequisites_fraction_witness:
  "check_prerequisites py_lower (get_default_courses ! 1) ml_profile = 1
   \<and> check_prerequisites py_lower (get_default_courses ! 11) ml_profile = 1
   \<and> check_prerequisites py_lower (get_default_courses ! 8) ml_profile = 0"
proof -
  define c1 c11 c8 where "c1 = get_default_courses ! 1" and "c11 = get_default_courses ! 11"
    and "c8 = get_default_courses ! 8"
  have p1: "prerequisites c1 = [[0x41C, 0x430, 0x448, 0x438, 0x43D, 0x43D, 0x43E, 0x435, 0x20, 0x43E, 0x431, 0x443, 0x447, 0x435, 0x43D, 0x438, 0x435]]"
    and p11: "prerequisites c11 = []"
    and p8: "prerequisites c8 = [ascii ''Python'', ascii ''SQL'']"
    by (simp_all add: get_default_courses_def c1_def c11_def c8_def)
  have s1: "prereq_satisfied py_lower ml_profile [0x41C, 0x430, 0x448, 0x438, 0x43D, 0x43D, 0x43E, 0x435, 0x20, 0x43E, 0x431, 0x443, 0x447, 0x435, 0x43D, 0x438, 0x435]"
    by (simp add: prereq_satisfied_def first_group_credit_tl Let_def ml_profile_eq
        UserSkills_default_def at_least_intermediate_def kw_mashinn_def ascii_def
        py_lower_def lower_cp_def)
  have s8: "\<not> prereq_satisfied py_lower ml_profile (ascii ''Python'')"
    "\<not> prereq_satisfied py_lower ml_profile (ascii ''SQL'')"
    by (simp_all add: prereq_satisfied_def first_group_credit_tl Let_def ml_profile_eq
        UserSkills_default_def at_least_intermediate_def kw_mashinn_def kw_glubok_def
        kw_statist_def kw_veroyatn_def kw_algebr_def ascii_def py_lower_def lower_cp_def)
  have "check_prerequisites py_lower c1 ml_profile = int_truediv 1 1"
    using check_prerequisites_fraction [of py_lower c1 ml_profile, THEN conjunct1] s1
    by (simp add: p1)
  moreover have "check_prerequisites py_lower c11 ml_profile = 1"
    using check_prerequisites_fraction [of py_lower c11 ml_profile, THEN conjunct1]
    by (simp add: p11)
  moreover have "check_prerequisites py_lower c8 ml_profile = int_truediv 0 2"
    using check_prerequisites_fraction [of py_lower c8 ml_profile, THEN conjunct1] s8
    by (simp add: p8)
  ultimately show ?thesis
    unfolding c1_def c11_def c8_def by (simp add: int_truediv_def rnd_0 rnd_1)
qed

lemma prereq_step_python:
  "str_in (ascii ''python'') (lower p) \<Longrightarrow> at_least_intermediate (python s)
   \<Longrightarrow> prereq_step lower s met p = met + 1"
  by (simp add: prereq_step_satisfied prereq_satisfied_def)

lemma prereq_step_no_python:
  "\<not> str_in (ascii ''python'') (lower p)
   \<Longrightarrow> prereq_step lower s met p = met + (if first_group_credit prereq_groups lower s p then 1 else 0)"
  by (simp add: prereq_step_satisfied prereq_satisfied_def first_group_credit_all)

lemma prereq_step_python_low:
  "str_in (ascii ''python'') (lower p) \<Longrightarrow> \<not> at_least_intermediate (python s)
   \<Longrightarrow> prereq_step lower s met p
         = met + (if first_group_credit (tl prereq_groups) lower s p then 1 else 0)"
  by (simp add: prereq_step_satisfied prereq_satisfied_def)

text \<open>
  Claim C9, as amended. Each prerequisite label adds 1 to the count exactly when its
  text contains "python" and the python dimension is at least \<open>INTERMEDIATE\<close>, or the
  first of the four other groups (ML basics, deep learning, statistics and probability,
  mathematics, in this order) that its text matches has its dimension at least
  \<open>INTERMEDIATE\<close>; otherwise it adds nothing. So a label whose text contains "python"
  adds 1 when the python dimension is at least \<open>INTERMEDIATE\<close>, and when the python
  dimension is lower it is judged as if the python group were absent, by the first of
  the four other groups it matches alone. A label whose text does not contain "python"
  is judged by the first group it matches in the fixed order alone: it adds 1 exactly
  when that group's dimension is at least \<open>INTERMEDIATE\<close>, so it is never credited through
  a later group when the dimension of the first matching group is too low.
\<close>

theorem prereq_step_first_group:
  "prereq_step lower s met p
     = met + (if (str_in (ascii ''python'') (lower p) \<and> at_least_intermediate (python s))
                  \<or> first_group_credit (tl prereq_groups) lower s p
              then 1 else 0)
   \<and> (prereq_step lower s met p = met \<or> prereq_step lower s met p = met + 1)
   \<and> (str_in (ascii ''python'') (lower p) \<and> at_least_intermediate (python s)
        \<longrightarrow> prereq_step lower s met p = met + 1)
   \<and> (str_in (ascii ''python'') (lower p) \<and> \<not> at_least_intermediate (python s)
        \<longrightarrow> prereq_step lower s met p
              = met + (if first_group_credit (tl prereq_groups) lower s p then 1 else 0))
   \<and> (\<not> str_in (ascii ''python'') (lower p)
        \<longrightarrow> prereq_step lower s met p
              = met + (if first_group_credit prereq_groups lower s p then 1 else 0))
   \<and> (\<forall>kws level_of.
          \<not> str_in (ascii ''python'') (lower p)
          \<and> first_group prereq_groups (lower p) = Some (kws, level_of)
          \<and> \<not> at_least_intermediate (level_of s)
        \<longrightarrow> prereq_step lower s met p = met)
   \<and> (\<forall>kws level_of.
          str_in (ascii ''python'') (lower p) \<and> \<not> at_least_intermediate (python s)
          \<and> first_group (tl prereq_groups) (lower p) = Some (kws, level_of)
        \<longrightarrow> prereq_step lower s met p
              = met + (if at_least_intermediate (level_of s) then 1 else 0))
   \<and> (str_in (ascii ''python'') (lower p) \<and> \<not> at_least_intermediate (python s)
        \<and> first_group (tl prereq_groups) (lower p) = None
        \<longrightarrow> prereq_step lower s met p = met)"
proof (intro conjI allI impI)
  show "prereq_step lower s met p
     = met + (if (str_in (ascii ''python'') (lower p) \<and> at_least_intermediate (python s))
                  \<or> first_group_credit (tl prereq_groups) lower s p
              then 1 else 0)"
    by (simp only: prereq_step_satisfied prereq_satisfied_def)
next
  show "prereq_step lower s met p = met \<or> prereq_step lower s met p = met + 1"
    by (simp add: prereq_step_satisfied)
next
  assume "str_in (ascii ''python'') (lower p) \<and> at_least_intermediate (python s)"
  then show "prereq_step lower s met p = met + 1"
    by (simp add: prereq_step_python)
next
  assume "str_in (ascii ''python'') (lower p) \<and> \<not> at_least_intermediate (python s)"
  then show "prereq_step lower s met p
              = met + (if first_group_credit (tl prereq_groups) lower s p then 1 else 0)"
    by (simp add: prereq_step_python_low)
next
  assume "\<not> str_in (ascii ''python'') (lower p)"
  then show "prereq_step lower s met p
              = met + (if first_group_credit prereq_groups lower s p then 1 else 0)"
    by (rule prereq_step_no_python)
next
  fix kws level_of
  assume a: "\<not> str_in (ascii ''python'') (lower p)
          \<and> first_group prereq_groups (lower p) = Some (kws, level_of)
          \<and> \<not> at_least_intermediate (level_of s)"
  then have "\<not> first_group_credit prereq_groups lower s p"
    by (simp add: first_group_credit_def)
  with a show "prereq_step lower s met p = met"
    by (simp add: prereq_step_no_python)
next
  fix kws level_of
  assume a: "str_in (ascii ''python'') (lower p) \<and> \<not> at_least_intermediate (python s)
          \<and> first_group (tl prereq_groups) (lower p) = Some (kws, level_of)"
  then have "first_group_credit (tl prereq_groups) lower s p = at_least_intermediate (level_of s)"
    by (simp add: first_group_credit_def)
  with a show "prereq_step lower s met p
              = met + (if at_least_intermediate (level_of s) then 1 else 0)"
    by (simp add: prereq_step_python_low)
next
  assume a: "str_in (ascii ''python'') (lower p) \<and> \<not> at_least_intermediate (python s)
        \<and> first_group (tl prereq_groups) (lower p) = None"
  then have "\<not> first_group_credit (tl prereq_groups) lower s p"
    by (simp add: first_group_credit_def)
  with a show "prereq_step lower s met p = met"
    by (simp add: prereq_step_python_low)
qed

text \<open>
  Claim C9 as stated fails for the python group: the label "Python for ML" matches the
  python group first, the profile derived from the background "ML" has python at
  \<open>NONE\<close>, and the label is credited all the same, through the later ML-basics group.
\<close>

theorem prereq_step_first_group_counterexample:
  "str_in (ascii ''python'') (py_lower (ascii ''Python for ML''))
   \<and> python ml_profile = NONE
   \<and> \<not> first_group_credit prereq_groups py_lower ml_profile (ascii ''Python for ML'')
   \<and> prereq_step py_lower ml_profile 0 (ascii ''Python for ML'') = 1"
  by (simp add: first_group_credit_all prereq_step_satisfied prereq_satisfied_def
      first_group_credit_tl Let_def ml_profile_eq UserSkills_default_def
      at_least_intermediate_def kw_mashinn_def ascii_def py_lower_def lower_cp_def)

theorem prereq_step_first_group_witness:
  "\<not> str_in (ascii ''python'') (py_lower (ascii ''Deep Learning (ML)''))
   \<and> first_group prereq_groups (py_lower (ascii ''Deep Learning (ML)''))
       = Some ([kw_mashinn, ascii ''ml''], ml_basics)
   \<and> ml_basics pytorch_profile = NONE \<and> deep_learning pytorch_profile = INTERMEDIATE
   \<and> prereq_step py_lower pytorch_profile 0 (ascii ''Deep Learning (ML)'') = 0
   \<and> str_in (ascii ''python'') (py_lower (ascii ''Python''))
   \<and> python pytorch_profile = NONE
   \<and> first_group (tl prereq_groups) (py_lower (ascii ''Python'')) = None
   \<and> prereq_step py_lower pytorch_profile 0 (ascii ''Python'') = 0"
proof -
  have n: "\<not> str_in (ascii ''python'') (py_lower (ascii ''Deep Learning (ML)''))"
    by (simp add: ascii_def py_lower_def lower_cp_def)
  have f: "first_group prereq_groups (py_lower (ascii ''Deep Learning (ML)''))
       = Some ([kw_mashinn, ascii ''ml''], ml_basics)"
    by (simp add: first_group_def prereq_groups_def any_in_def kw_mashinn_def ascii_def
        py_lower_def lower_cp_def)
  have l: "ml_basics pytorch_profile = NONE" "deep_learning pytorch_profile = INTERMEDIATE"
    "python pytorch_profile = NONE"
    by (simp_all add: pytorch_profile_eq UserSkills_default_def)
  have y: "str_in (ascii ''python'') (py_lower (ascii ''Python''))"
    by (simp add: ascii_def py_lower_def lower_cp_def)
  have g: "first_group (tl prereq_groups) (py_lower (ascii ''Python'')) = None"
    by (simp add: first_group_def prereq_groups_def any_in_def kw_mashinn_def kw_glubok_def
        kw_statist_def kw_veroyatn_def kw_algebr_def ascii_def py_lower_def lower_cp_def)
  have m: "\<not> at_least_intermediate (ml_basics pytorch_profile)"
    "\<not> at_least_intermediate (python pytorch_profile)"
    by (simp_all add: l at_least_intermediate_def)
  from n f m(1) have 1: "prereq_step py_lower pytorch_profile 0 (ascii ''Deep Learning (ML)'') = 0"
    using prereq_step_first_group [of py_lower pytorch_profile 0 "ascii ''Deep Learning (ML)''"]
    by blast
  from y g m(2) have 2: "prereq_step py_lower pytorch_profile 0 (ascii ''Python'') = 0"
    using prereq_step_first_group [of py_lower pytorch_profile 0 "ascii ''Python''"]
    by blast
  from n f l y g 1 2 show ?thesis by simp
qed

section \<open>Interest match and reasoning\<close>

lemma interest_fold_matches:
  "snd (fold (\<lambda>interest st. interest_step lower n d st interest) interests st) =
     snd st @ filter (\<lambda>i. str_in (lower i) n \<or> str_in (lower i) d) interests"
  by (induction interests arbitrary: st) (simp_all add: interest_step_def Let_def)

lemma interest_loop_matches:
  "snd (interest_loop lower c interests) =
     filter (\<lambda>i. str_in (lower i) (lower (name c)) \<or> str_in (lower i) (lower (description c)))
       interests"
  by (simp add: interest_loop_def Let_def interest_fold_matches)

lemma rnd_dbl_4_10: "rnd (dbl (4 / 10)) = dbl (4 / 10)"
  using rnd_representable [of 3602879701896397 "- 53"] by (simp add: dbl_values)

lemma fadd_4_10_ge:
  assumes "0 \<le> x"
  shows "dbl (4 / 10) \<le> fadd x (dbl (4 / 10))"
proof -
  have "0 \<le> dbl (4 / 10)" by (simp add: dbl_values)
  then have "rnd (dbl (4 / 10)) \<le> rnd (x + dbl (4 / 10))"
    using assms by (intro rnd_mono) simp_all
  then show ?thesis by (simp only: fadd_def rnd_dbl_4_10)
qed

lemma interest_fold_cap:
  assumes "0 \<le> fst st"
    and "dbl (4 / 10) \<le> fst st \<or> (\<exists>i \<in> set interests. str_in (lower i) n \<or> str_in (lower i) d)"
  shows "dbl (4 / 10) \<le> fst (fold (\<lambda>interest st. interest_step lower n d st interest) interests st)"
  using assms
proof (induction interests arbitrary: st)
  case Nil
  then show ?case by simp
next
  case (Cons i interests)
  let ?st = "interest_step lower n d st i"
  have nn: "0 \<le> fst ?st"
    using Cons.prems(1) fadd_nonneg [of "fst st" "dbl (4 / 10)"]
    by (simp add: interest_step_def Let_def dbl_values)
  have "dbl (4 / 10) \<le> fst ?st \<or> (\<exists>i \<in> set interests. str_in (lower i) n \<or> str_in (lower i) d)"
  proof (cases "str_in (lower i) n \<or> str_in (lower i) d")
    case True
    then have "fst ?st = fadd (fst st) (dbl (4 / 10))"
      by (simp only: interest_step_def Let_def if_True fst_conv)
    then show ?thesis using fadd_4_10_ge [OF Cons.prems(1)] by (simp only:) simp
  next
    case False
    then have "fst ?st = fst st"
      by (simp only: interest_step_def Let_def if_False fst_conv)
    then show ?thesis using Cons.prems(2) False by auto
  qed
  with nn have "dbl (4 / 10) \<le> fst (fold (\<lambda>interest st. interest_step lower n d st interest) interests ?st)"
    by (rule Cons.IH)
  then show ?case by simp
qed

lemma score_course_reasoning_prefix:
  assumes "snd (interest_loop lower c interests) \<noteq> []"
  shows "prefix (clause_interests @ join (ascii '', '') (snd (interest_loop lower c interests)))
           (snd (score_course lower c s interests))"
  using assms by (simp add: score_course_def Let_def)

text \<open>
  Claim C10. If the interest list contains the empty string (and the empty string is its
  own lower case), then for every course the interest sub-score reaches its cap, the
  float 0.4, the empty interest is among the matches, and the reasoning string starts
  with the interest clause that lists the matches.
\<close>

theorem empty_interest_reaches_cap:
  assumes "[] \<in> set interests" and "lower [] = []"
  shows "min (fst (interest_loop lower c interests)) (dbl (4 / 10)) = dbl (4 / 10)
         \<and> [] \<in> set (snd (interest_loop lower c interests))
         \<and> prefix (clause_interests @ join (ascii '', '') (snd (interest_loop lower c interests)))
              (snd (score_course lower c s interests))"
proof -
  have m: "str_in (lower []) (lower (name c))"
    by (simp add: assms(2) str_in_Nil_left)
  have "dbl (4 / 10) \<le> fst (interest_loop lower c interests)"
    unfolding interest_loop_def Let_def
  proof (rule interest_fold_cap)
    show "0 \<le> fst (dbl 0, [])" by (simp add: dbl_0)
    show "dbl (4 / 10) \<le> fst (dbl 0, [])
          \<or> (\<exists>i \<in> set interests. str_in (lower i) (lower (name c))
                                  \<or> str_in (lower i) (lower (description c)))"
      using assms(1) m by blast
  qed
  then have 1: "min (fst (interest_loop lower c interests)) (dbl (4 / 10)) = dbl (4 / 10)"
    by (rule min_absorb2)
  have 2: "[] \<in> set (snd (interest_loop lower c interests))"
    using assms(1) m by (simp add: interest_loop_matches)
  then have "snd (interest_loop lower c interests) \<noteq> []" by auto
  then have 3: "prefix (clause_interests @ join (ascii '', '') (snd (interest_loop lower c interests)))
              (snd (score_course lower c s interests))"
    by (rule score_course_reasoning_prefix)
  from 1 2 3 show ?thesis by (intro conjI)
qed

theorem empty_interest_reaches_cap_witness:
  "min (fst (interest_loop py_lower (get_default_courses ! 11) [ascii ''NLP'', []])) (dbl (4 / 10))
     = dbl (4 / 10)
   \<and> [] \<in> set (snd (interest_loop py_lower (get_default_courses ! 11) [ascii ''NLP'', []]))
   \<and> prefix (clause_interests
              @ join (ascii '', '') (snd (interest_loop py_lower (get_default_courses ! 11) [ascii ''NLP'', []])))
        (snd (score_course py_lower (get_default_courses ! 11) UserSkills_default [ascii ''NLP'', []]))"
  by (rule empty_interest_reaches_cap) (simp_all add: py_lower_Nil)

section \<open>Ranking: order, priorities and length\<close>

lemma slice_to_Nil: "slice_to [] n = []"
  by (simp add: slice_to_def)

lemma slice_to_take: "\<exists>k. slice_to xs n = take k xs"
  by (auto simp: slice_to_def)

lemma length_slice_to: "0 \<le> n \<Longrightarrow> length (slice_to xs n) = min (nat n) (length xs)"
  by (simp add: slice_to_def)

text \<open>The body of the method after the test for an empty list of electives; it gives the
  empty list there too.\<close>

lemma recommend_courses_eq:
  "recommend_courses lower courses user_background interests prog max_recommendations =
     map (\<lambda>(i, r). r\<lparr>priority := int i + 1\<rparr>)
       (enumerate 0
         (slice_to
           (sort_key (\<lambda>x. - score x)
             (map (\<lambda>c. \<lparr>course = c,
                        score = fst (score_course lower c (from_background lower user_background) interests),
                        reasoning = snd (score_course lower c (from_background lower user_background) interests),
                        priority = 0\<rparr>)
               (get_elective_courses lower courses prog)))
           max_recommendations))"
  by (simp add: recommend_courses_def Let_def slice_to_Nil)

lemma map_score_priorities:
  "map score (map (\<lambda>(i, r). r\<lparr>priority := int i + 1\<rparr>) (enumerate n xs)) = map score xs"
  by (induction xs arbitrary: n) simp_all

lemma map_priority_priorities:
  "map priority (map (\<lambda>(i, r). r\<lparr>priority := int i + 1\<rparr>) (enumerate n xs)) =
     map (\<lambda>i. int i + 1) [n..<n + length xs]"
proof (induction xs arbitrary: n)
  case Nil
  then show ?case by simp
next
  case (Cons x xs)
  have "[n..<n + length (x # xs)] = n # [Suc n..<Suc n + length xs]"
    by (simp add: upt_rec)
  then show ?case using Cons.IH [of "Suc n"] by simp
qed

lemma upto_from_1: "map (\<lambda>i. int i + 1) [0..<n] = [1..int n]"
proof (induction n)
  case 0
  then show ?case by simp
next
  case (Suc n)
  have "[1..int (Suc n)] = [1..int n] @ [int n + 1]"
    using upto_rec2 [of 1 "int (Suc n)"] by simp
  then show ?case using Suc by simp
qed

lemma sorted_desc_sort_key:
  "sorted_wrt (\<lambda>a b. score b \<le> score a) (sort_key (\<lambda>x. - score x) (xs :: CourseRecommendation list))"
proof -
  have "sorted (map (\<lambda>x. - score x) (sort_key (\<lambda>x. - score x) xs))"
    by (rule sorted_sort_key)
  then show ?thesis
    by (simp add: sorted_map) 
qed

lemma sorted_wrt_score_map:
  "sorted_wrt (\<lambda>a b. score b \<le> score a) xs = sorted_wrt (\<lambda>a b. b \<le> a) (map score xs)"
  by (simp add: sorted_wrt_map)

lemma recommend_courses_sorted:
  "sorted_wrt (\<lambda>a b. score b \<le> score a)
     (recommend_courses lower courses user_background interests prog max_recommendations)"
proof -
  let ?recs = "sort_key (\<lambda>x. - score x)
             (map (\<lambda>c. \<lparr>course = c,
                        score = fst (score_course lower c (from_background lower user_background) interests),
                        reasoning = snd (score_course lower c (from_background lower user_background) interests),
                        priority = 0\<rparr>)
               (get_elective_courses lower courses prog))"
  obtain k where k: "slice_to ?recs max_recommendations = take k ?recs"
    using slice_to_take by blast
  have "sorted_wrt (\<lambda>a b. score b \<le> score a) (take k ?recs)"
    using sorted_desc_sort_key by (rule sorted_wrt_take)
  then have "sorted_wrt (\<lambda>a b. b \<le> a) (map score (slice_to ?recs max_recommendations))"
    by (simp only: k sorted_wrt_score_map)
  then show ?thesis
    by (simp only: recommend_courses_eq sorted_wrt_score_map map_score_priorities)
qed

lemma recommend_courses_priorities:
  "map priority (recommend_courses lower courses user_background interests prog max_recommendations)
     = [1..int (length (recommend_courses lower courses user_background interests prog max_recommendations))]"
proof -
  have "\<And>xs :: CourseRecommendation list.
          map priority (map (\<lambda>(i, r). r\<lparr>priority := int i + 1\<rparr>) (enumerate 0 xs))
            = [1..int (length (map (\<lambda>(i, r). r\<lparr>priority := int i + 1\<rparr>) (enumerate 0 xs)))]"
    using map_priority_priorities [of 0] by (simp only: upto_from_1 add_0 length_map length_enumerate)
  then show ?thesis by (simp only: recommend_courses_eq)
qed

lemma recommend_courses_length_eq:
  "0 \<le> max_recommendations \<Longrightarrow>
   length (recommend_courses lower courses user_background interests prog max_recommendations)
     = min (nat max_recommendations) (length (get_elective_courses lower courses prog))"
  by (simp add: recommend_courses_eq length_slice_to)

text \<open>
  Claim C3. For every profile, interest list, catalog and limit, the returned sequence is
  in non-increasing order of score (every adjacent pair included), and the priorities
  of its \<open>k\<close> elements are 1, ..., \<open>k\<close> in this order.
\<close>

theorem recommend_courses_ranked:
  "(let out = recommend_courses lower courses user_background interests prog max_recommendations in
      sorted_wrt (\<lambda>a b. score b \<le> score a) out
      \<and> (\<forall>i. Suc i < length out \<longrightarrow> score (out ! Suc i) \<le> score (out ! i))
      \<and> map priority out = [1..int (length out)])"
proof -
  let ?out = "recommend_courses lower courses user_background interests prog max_recommendations"
  have 1: "sorted_wrt (\<lambda>a b. score b \<le> score a) ?out"
    by (rule recommend_courses_sorted)
  have 2: "\<forall>i. Suc i < length ?out \<longrightarrow> score (?out ! Suc i) \<le> score (?out ! i)"
    using 1 by (auto simp: sorted_wrt_iff_nth_less)
  have 3: "map priority ?out = [1..int (length ?out)]"
    by (rule recommend_courses_priorities)
  from 1 2 3 show ?thesis by (simp add: Let_def)
qed

text \<open>
  Claim C4. For every catalog, optional program filter and limit above 0, the result has
  as many elements as the smaller of the limit and the number of elective courses that
  pass the filter; when no elective passes, the result is the empty sequence.
\<close>

theorem recommend_courses_length:
  assumes "0 < max_recommendations"
  shows "length (recommend_courses lower courses user_background interests prog max_recommendations)
           = min (nat max_recommendations) (length (get_elective_courses lower courses prog))
         \<and> (get_elective_courses lower courses prog = []
              \<longrightarrow> recommend_courses lower courses user_background interests prog max_recommendations = [])"
proof -
  have "length (recommend_courses lower courses user_background interests prog max_recommendations)
           = min (nat max_recommendations) (length (get_elective_courses lower courses prog))"
    using assms by (intro recommend_courses_length_eq) simp
  moreover have "get_elective_courses lower courses prog = []
              \<longrightarrow> recommend_courses lower courses user_background interests prog max_recommendations = []"
    by (simp add: recommend_courses_def)
  ultimately show ?thesis by (rule conjI)
qed

lemma seed_electives:
  "get_elective_courses py_lower get_default_courses None =
     [get_default_courses ! 4, get_default_courses ! 5, get_default_courses ! 6,
      get_default_courses ! 7, get_default_courses ! 8, get_default_courses ! 11]"
  by (simp add: get_elective_courses_def get_default_courses_def vybornaya_def obyazatelnaya_def)

lemma seed_electives_ai_product:
  "get_elective_courses py_lower get_default_courses (Some (ascii ''ai product'')) =
     [get_default_courses ! 11]"
  by (simp add: get_elective_courses_def get_default_courses_def vybornaya_def obyazatelnaya_def
      ascii_def py_lower_def lower_cp_def)

lemma seed_electives_robotics:
  "get_elective_courses py_lower get_default_courses (Some (ascii ''Robotics'')) = []"
  by (simp add: get_elective_courses_def get_default_courses_def vybornaya_def obyazatelnaya_def
      ascii_def py_lower_def lower_cp_def)

theorem recommend_courses_length_witness:
  "length (recommend_courses py_lower get_default_courses (ascii ''Python'') [ascii ''NLP''] None 5) = 5
   \<and> length (recommend_courses py_lower get_default_courses (ascii ''Python'') [ascii ''NLP'']
               (Some (ascii ''ai product'')) 5) = 1
   \<and> recommend_courses py_lower get_default_courses (ascii ''Python'') [ascii ''NLP'']
               (Some (ascii ''Robotics'')) 5 = []"
proof -
  have p: "(0::int) < 5" by simp
  note t = recommend_courses_length [OF p, of py_lower get_default_courses "ascii ''Python''" "[ascii ''NLP'']"]
  have "length (recommend_courses py_lower get_default_courses (ascii ''Python'') [ascii ''NLP''] None 5) = 5"
    using t [of None] by (simp add: seed_electives)
  moreover have "length (recommend_courses py_lower get_default_courses (ascii ''Python'') [ascii ''NLP'']
               (Some (ascii ''ai product'')) 5) = 1"
    using t [of "Some (ascii ''ai product'')"] by (simp add: seed_electives_ai_product)
  moreover have "recommend_courses py_lower get_default_courses (ascii ''Python'') [ascii ''NLP'']
               (Some (ascii ''Robotics'')) 5 = []"
    using t [of "Some (ascii ''Robotics'')"] by (simp add: seed_electives_robotics)
  ultimately show ?thesis by (intro conjI)
qed

theorem recommend_courses_ranked_witness:
  "(let out = recommend_courses py_lower get_default_courses (ascii ''Python'') [ascii ''NLP''] None 3 in
      length out = 3
      \<and> score (out ! 1) \<le> score (out ! 0) \<and> score (out ! 2) \<le> score (out ! 1)
      \<and> map priority out = [1, 2, 3])"
proof -
  let ?out = "recommend_courses py_lower get_default_courses (ascii ''Python'') [ascii ''NLP''] None 3"
  have l: "length ?out = 3"
    using recommend_courses_length_eq [of 3 py_lower get_default_courses "ascii ''Python''" "[ascii ''NLP'']" None]
    by (simp add: seed_electives)
  from recommend_courses_ranked [of py_lower get_default_courses "ascii ''Python''" "[ascii ''NLP'']" None 3]
  have a: "\<forall>i. Suc i < length ?out \<longrightarrow> score (?out ! Suc i) \<le> score (?out ! i)"
    and b: "map priority ?out = [1..int (length ?out)]"
    by (simp_all add: Let_def)
  have "score (?out ! Suc 0) \<le> score (?out ! 0)" "score (?out ! Suc (Suc 0)) \<le> score (?out ! Suc 0)"
    using a l by simp_all
  moreover have "[1..(3::int)] = [1, 2, 3]"
    by (simp add: upto.simps)
  ultimately show ?thesis using l b by (simp add: Let_def numeral_2_eq_2)
qed

end
